theory Spec2Isabelle
  imports Complex_Main "HOL-Library.AList"
begin

section \<open>The MI tree decoder (package opensips_mi)\<close>

text \<open>
  The value handed to \<open>fromJson\<close> is what \<open>encoding/json\<close> produces when it decodes
  into \<open>interface{}\<close>: nil, bool, float64, string, \<open>[]interface{}\<close> or
  \<open>map[string]interface{}\<close>. A Go map has unique keys and no iteration order of its own;
  the association list of \<open>JMap\<close> lists the entries in the order in which the runtime
  happens to range over them, and lookups go through \<open>map_of\<close>. The payload of a number
  is never inspected by the decoder.
\<close>

datatype json =
    JNull
  | JBool bool
  | JNum real
  | JString string
  | JList "json list"
  | JMap "(string \<times> json) list"

text \<open>The dynamic type that \<open>reflect.TypeOf\<close> reports, printed in the decode error.\<close>

datatype jtype = TNil | TBool | TFloat64 | TString | TSlice | TMap

fun TypeOf :: "json \<Rightarrow> jtype" where
  "TypeOf JNull = TNil"
| "TypeOf (JBool b) = TBool"
| "TypeOf (JNum x) = TFloat64"
| "TypeOf (JString s) = TString"
| "TypeOf (JList l) = TSlice"
| "TypeOf (JMap m) = TMap"

text \<open>
  \<open>UnsupportedType\<close> is the error value built by \<open>fmt.Errorf("Unsupported type in JSON: ...")\<close>.
  \<open>NilMapPanic\<close> is the run-time panic "assignment to entry in nil map": Go raises it
  when an entry is stored into a map field that was never allocated with \<open>make\<close>.
\<close>

datatype error = UnsupportedType jtype | NilMapPanic

text \<open>
  \<open>MINode\<close>: the two map fields are optional, \<open>None\<close> being Go's nil map (reads of a
  nil map give the zero value, writes panic). Stores into an allocated map are
  \<open>AList.update\<close>: a key already present keeps one entry with the new value.
\<close>

datatype MINode = MINode
  (Name: string)
  (Value: string)
  (Attrs: "(string \<times> string) list option")
  (Children: "MINode list")
  (ChildValues: "(string \<times> string) list option")

definition emptyNode :: MINode where
  "emptyNode = MINode [] [] None [] None"

fun set_Name :: "string \<Rightarrow> MINode \<Rightarrow> MINode" where
  "set_Name s (MINode nm v a c cv) = MINode s v a c cv"

fun set_Value :: "string \<Rightarrow> MINode \<Rightarrow> MINode" where
  "set_Value s (MINode nm v a c cv) = MINode nm s a c cv"

fun set_Attrs :: "(string \<times> string) list option \<Rightarrow> MINode \<Rightarrow> MINode" where
  "set_Attrs s (MINode nm v a c cv) = MINode nm v s c cv"

fun set_Children :: "MINode list \<Rightarrow> MINode \<Rightarrow> MINode" where
  "set_Children s (MINode nm v a c cv) = MINode nm v a s cv"

fun set_ChildValues :: "(string \<times> string) list option \<Rightarrow> MINode \<Rightarrow> MINode" where
  "set_ChildValues s (MINode nm v a c cv) = MINode nm v a c s"

text \<open>Reading \<open>m[k]\<close> from a \<open>map[string]string\<close>: the empty string when absent or nil.\<close>

definition index_str :: "(string \<times> string) list option \<Rightarrow> string \<Rightarrow> string" where
  "index_str m k = (case m of None \<Rightarrow> [] | Some al \<Rightarrow> (case map_of al k of None \<Rightarrow> [] | Some v \<Rightarrow> v))"

text \<open>
  \<open>n.Children = append(n.Children, child)\<close> followed by
  \<open>if child.Name != "" { n.ChildValues[child.Name] = child.Value }\<close>
  (lines 162-165 and 210-213 of the decoder).
\<close>

definition appendChild :: "MINode \<Rightarrow> MINode \<Rightarrow> error + MINode" where
  "appendChild n child =
     (let n' = set_Children (Children n @ [child]) n in
      if Name child \<noteq> [] then
        (case ChildValues n' of
           None \<Rightarrow> Inl NilMapPanic
         | Some cv \<Rightarrow> Inr (set_ChildValues (Some (AList.update (Name child) (Value child) cv)) n'))
      else Inr n')"

text \<open>The loop over the \<open>attributes\<close> map (lines 127-132): only string elements are kept.\<close>

fun attrsLoop :: "(string \<times> string) list \<Rightarrow> (string \<times> json) list \<Rightarrow> (string \<times> string) list" where
  "attrsLoop acc [] = acc"
| "attrsLoop acc ((k, JString vs) # m) = attrsLoop (AList.update k vs acc) m"
| "attrsLoop acc ((k, elem) # m) = attrsLoop acc m"

text \<open>
  Lines 112-135: the \<open>name\<close>, \<open>value\<close> and \<open>attributes\<close> keys of a map, with the
  \<open>isNode\<close> flag they leave behind.
\<close>

definition nodeHeader :: "MINode \<Rightarrow> (string \<times> json) list \<Rightarrow> MINode \<times> bool" where
  "nodeHeader n mapval =
     (let (n1, isNode1) = (case map_of mapval ''name'' of
                             Some (JString s) \<Rightarrow> (set_Name s n, True)
                           | _ \<Rightarrow> (n, False));
          (n2, isNode2) = (case map_of mapval ''value'' of
                             Some (JString s) \<Rightarrow> (set_Value s n1, True)
                           | _ \<Rightarrow> (n1, isNode1))
      in (case map_of mapval ''attributes'' of
            Some (JMap m) \<Rightarrow> (set_Attrs (Some (attrsLoop [] m)) n2, True)
          | _ \<Rightarrow> (n2, isNode2)))"

text \<open>
  Lines 185-193, "parse as map" for a map that is not a node: only keys with a string
  value produce a child and a \<open>ChildValues\<close> entry; there is no else branch.
\<close>

fun implicitLoop :: "MINode \<Rightarrow> (string \<times> json) list \<Rightarrow> MINode" where
  "implicitLoop n [] = n"
| "implicitLoop n ((k, JString vs) # m) =
     implicitLoop
       (set_ChildValues (Some (AList.update k vs (case ChildValues n of None \<Rightarrow> [] | Some cv \<Rightarrow> cv)))
          (set_Children (Children n @ [MINode k vs None [] None]) n)) m"
| "implicitLoop n ((k, v) # m) = implicitLoop n m"

text \<open>
  \<open>fromJson\<close> (lines 107-201), \<open>fromJsonList\<close> (lines 203-216) with its loop, and the
  loop over a \<open>children\<close> map (lines 147-166). The receiver \<open>n\<close> is passed in and the
  updated node is returned; on an error the caller drops the node, so the error alone
  is returned.
\<close>

function fromJson :: "MINode \<Rightarrow> json \<Rightarrow> error + MINode"
  and fromJsonList :: "MINode \<Rightarrow> json list \<Rightarrow> error + MINode"
  and fromJsonListLoop :: "MINode \<Rightarrow> json list \<Rightarrow> error + MINode"
  and childrenMapLoop :: "MINode \<Rightarrow> (string \<times> json) list \<Rightarrow> error + MINode"
where
  "fromJson n (JMap mapval) =
     (case nodeHeader n mapval of (n3, isNode3) \<Rightarrow>
        (case map_of mapval ''children'' of
           Some (JList lst) \<Rightarrow> fromJsonList n3 lst
         | Some (JMap mp) \<Rightarrow> childrenMapLoop (set_ChildValues (Some []) (set_Children [] n3)) mp
         | _ \<Rightarrow>
            if isNode3 then Inr n3
            else (case mapval of
                    [(name, JList lst)] \<Rightarrow> fromJsonList (set_Name name n3) lst
                  | _ \<Rightarrow> Inr (implicitLoop (set_ChildValues (Some []) (set_Children [] n3)) mapval))))"
| "fromJson n JNull = Inl (UnsupportedType TNil)"
| "fromJson n (JBool b) = Inl (UnsupportedType TBool)"
| "fromJson n (JNum x) = Inl (UnsupportedType TFloat64)"
| "fromJson n (JString s) = Inl (UnsupportedType TString)"
| "fromJson n (JList l) = Inl (UnsupportedType TSlice)"
| "fromJsonList n lst = fromJsonListLoop (set_Children [] n) lst"
| "fromJsonListLoop n [] = Inr n"
| "fromJsonListLoop n (elem # rest) =
     (case fromJson emptyNode elem of
        Inl err \<Rightarrow> Inl err
      | Inr child \<Rightarrow>
          (case appendChild n child of
             Inl err \<Rightarrow> Inl err
           | Inr n' \<Rightarrow> fromJsonListLoop n' rest))"
| "childrenMapLoop n [] = Inr n"
| "childrenMapLoop n ((k, v) # rest) =
     (case (case v of
              JString sv \<Rightarrow> Inr (MINode k sv None [] None)
            | JMap m \<Rightarrow> fromJson (MINode k [] None [] None) v
            | JList lst \<Rightarrow> fromJsonList (MINode k [] None [] None) lst
            | _ \<Rightarrow> Inl (UnsupportedType (TypeOf v))) of
        Inl err \<Rightarrow> Inl err
      | Inr child \<Rightarrow>
          (case appendChild n child of
             Inl err \<Rightarrow> Inl err
           | Inr n' \<Rightarrow> childrenMapLoop n' rest))"
  by pat_completeness auto


termination fromJson
proof -
  have lookup_smaller: "size v < size_list (size_prod (\<lambda>x. 0) size) kvs"
    if "map_of kvs k = Some v" for kvs :: "(string \<times> json) list" and k v
    using that by (induction kvs) (auto split: if_splits)
  show ?thesis
    apply (relation "measure (\<lambda>x. case x of
              Inl (Inl (n, v)) \<Rightarrow> size v
            | Inl (Inr (n, l)) \<Rightarrow> Suc (size_list size l)
            | Inr (Inl (n, l)) \<Rightarrow> size_list size l
            | Inr (Inr (n, kvs)) \<Rightarrow> size_list (size_prod (\<lambda>x. 0) size) kvs)")
    apply simp_all
    apply (auto dest: lookup_smaller)
    done
qed

section \<open>Library values used by the exporter\<close>

text \<open>
  A \<open>float64\<close> as the exporter sees it: it is produced by \<open>strconv.ParseFloat\<close>,
  compared with \<open><\<close> and handed to Prometheus, never computed with. \<open>ParseFloat\<close>
  can return the infinities and NaN (for "Inf", "NaN"), so they are values here, and
  \<open>f64_lt\<close> is the IEEE comparison: false whenever an operand is NaN.
\<close>

datatype float64 = Fin real | PInf | NInf | NaN

fun f64_lt :: "float64 \<Rightarrow> float64 \<Rightarrow> bool" where
  "f64_lt (Fin a) (Fin b) = (a < b)"
| "f64_lt NaN y = False"
| "f64_lt x NaN = False"
| "f64_lt x NInf = False"
| "f64_lt PInf y = False"
| "f64_lt NInf y = True"
| "f64_lt (Fin a) PInf = True"

fun f64_le :: "float64 \<Rightarrow> float64 \<Rightarrow> bool" where
  "f64_le (Fin a) (Fin b) = (a \<le> b)"
| "f64_le NaN y = False"
| "f64_le x NaN = False"
| "f64_le NInf y = True"
| "f64_le x PInf = True"
| "f64_le PInf y = False"
| "f64_le (Fin a) NInf = False"

text \<open>
  Functions of Go's standard library whose definitions are not part of the repository.
  \<open>ParseFloat s\<close> is \<open>strconv.ParseFloat(s, 64)\<close>, \<open>None\<close> when it returns an error;
  \<open>TrimSpace\<close> is \<open>strings.TrimSpace\<close>; \<open>versionFind\<close> is
  \<open>versionRegexp.FindStringSubmatch\<close>, \<open>None\<close> for a nil result.
\<close>

record stdlib =
  ParseFloat :: "string \<Rightarrow> float64 option"
  TrimSpace :: "string \<Rightarrow> string"
  versionFind :: "string \<Rightarrow> string list option"

text \<open>
  Prometheus: a descriptor (fully qualified name, help, variable label names) and a
  constant metric.
\<close>

datatype ValueType = CounterValue | GaugeValue | UntypedValue

record Desc =
  fqName :: string
  descHelp :: string
  variableLabels :: "string list"

datatype Metric = ConstMetric Desc ValueType float64 "string list"

definition NewDesc :: "string \<Rightarrow> string \<Rightarrow> string list \<Rightarrow> Desc" where
  "NewDesc fq h labels = \<lparr>fqName = fq, descHelp = h, variableLabels = labels\<rparr>"

text \<open>
  \<open>NewDesc\<close> of the Prometheus client records an error in the descriptor when the metric
  name or a label name is not valid or when a label name occurs twice, and
  \<open>MustNewConstMetric\<close> panics when the descriptor carries an error or when the number
  of label values differs from the number of label names. A metric name is
  \<open>[a-zA-Z_:][a-zA-Z0-9_:]*\<close>; a label name is \<open>[a-zA-Z_][a-zA-Z0-9_]*\<close> and must
  not begin with two underscores.
\<close>

datatype prom_error = InvalidDescriptor | InconsistentCardinality

definition isLabelStart :: "char \<Rightarrow> bool" where
  "isLabelStart c = (c \<in> set ''abcdefghijklmnopqrstuvwxyzABCDEFGHIJKLMNOPQRSTUVWXYZ_'')"

definition isLabelChar :: "char \<Rightarrow> bool" where
  "isLabelChar c = (isLabelStart c \<or> c \<in> set ''0123456789'')"

definition validLabelName :: "string \<Rightarrow> bool" where
  "validLabelName l =
     (case l of
        [] \<Rightarrow> False
      | c # cs \<Rightarrow> isLabelStart c \<and> list_all isLabelChar cs \<and> take 2 l \<noteq> ''__'')"

definition validMetricName :: "string \<Rightarrow> bool" where
  "validMetricName m =
     (case m of
        [] \<Rightarrow> False
      | c # cs \<Rightarrow> (isLabelStart c \<or> c = CHR '':'')
                 \<and> list_all (\<lambda>x. isLabelChar x \<or> x = CHR '':'') cs)"

definition descValid :: "Desc \<Rightarrow> bool" where
  "descValid d =
     (validMetricName (fqName d)
      \<and> list_all validLabelName (variableLabels d)
      \<and> distinct (variableLabels d))"

definition MustNewConstMetric ::
  "Desc \<Rightarrow> ValueType \<Rightarrow> float64 \<Rightarrow> string list \<Rightarrow> prom_error + Metric" where
  "MustNewConstMetric d vt v labelValues =
     (if \<not> descValid d then Inl InvalidDescriptor
      else if length (variableLabels d) \<noteq> length labelValues then Inl InconsistentCardinality
      else Inr (ConstMetric d vt v labelValues))"

definition BuildFQName :: "string \<Rightarrow> string \<Rightarrow> string \<Rightarrow> string" where
  "BuildFQName ns subsystem nm =
     (if nm = [] then []
      else if ns \<noteq> [] \<and> subsystem \<noteq> [] then ns @ ''_'' @ subsystem @ ''_'' @ nm
      else if ns \<noteq> [] then ns @ ''_'' @ nm
      else if subsystem \<noteq> [] then subsystem @ ''_'' @ nm
      else nm)"

definition namespace :: string where
  "namespace = ''opensips''"

section \<open>The statistics catalog\<close>

text \<open>
  Every pattern of the catalog has the form \<open>^pre(?P<groupName>body)post$\<close> with
  literal \<open>pre\<close> and \<open>post\<close> and one named group, whose body is \<open>.+\<close>, \<open>\d+\<close> or
  \<open>[2-6]xx\<close>; a compiled pattern is kept as these four parts. In Go \<open>.\<close> matches any
  character but newline, \<open>\d\<close> the ASCII digits, and \<open>$\<close> only the end of the text.
\<close>

datatype group_body = AnyPlus | DigitPlus | CodeXX

record regexp =
  pre :: string
  groupName :: string
  body :: group_body
  post :: string

fun bodyMatches :: "group_body \<Rightarrow> string \<Rightarrow> bool" where
  "bodyMatches AnyPlus s = (s \<noteq> [] \<and> CHR 0x0A \<notin> set s)"
| "bodyMatches DigitPlus s = (s \<noteq> [] \<and> (\<forall>c \<in> set s. c \<in> set ''0123456789''))"
| "bodyMatches CodeXX s = (case s of [c, x1, x2] \<Rightarrow> c \<in> set ''23456'' \<and> x1 = CHR ''x'' \<and> x2 = CHR ''x'' | _ \<Rightarrow> False)"

text \<open>
  \<open>FindStringSubmatch\<close>: the whole match followed by the text of the group, \<open>None\<close>
  for Go's nil. The pattern is anchored at both ends, so the literal parts are a prefix
  and a suffix of the text and the group is what lies between them.
\<close>

definition FindStringSubmatch :: "regexp \<Rightarrow> string \<Rightarrow> string list option" where
  "FindStringSubmatch re s =
     (if length (pre re) + length (post re) \<le> length s
         \<and> take (length (pre re)) s = pre re
         \<and> drop (length s - length (post re)) s = post re
      then (let mid = take (length s - length (pre re) - length (post re)) (drop (length (pre re)) s)
            in if bodyMatches (body re) mid then Some [s, mid] else None)
      else None)"

definition SubexpNames :: "regexp \<Rightarrow> string list" where
  "SubexpNames re = [[], groupName re]"

record stat =
  name :: string
  stat :: string
  regexp :: "regexp option"
  valueType :: ValueType
  helpText :: string

definition core_stats :: "stat list" where
  "core_stats =
     [\<lparr>name = ''received_requests_total'', stat = ''rcv_requests'',
       regexp = None,
       valueType = CounterValue,
       helpText = ''The total number of received requests by OpenSIPS''\<rparr>,
      \<lparr>name = ''received_replies_total'', stat = ''rcv_replies'',
       regexp = None,
       valueType = CounterValue,
       helpText = ''The total number of received replies by OpenSIPS''\<rparr>,
      \<lparr>name = ''forwarded_requests_total'', stat = ''fwd_requests'',
       regexp = None,
       valueType = CounterValue,
       helpText = ''Total number of stateless forwarded requests by OpenSIPS''\<rparr>,
      \<lparr>name = ''forwarded_replies_total'', stat = ''fwd_replies'',
       regexp = None,
       valueType = CounterValue,
       helpText = ''Total number of stateless forwarded replies by OpenSIPS''\<rparr>,
      \<lparr>name = ''dropped_requests_total'', stat = ''drop_requests'',
       regexp = None,
       valueType = CounterValue,
       helpText = ''Total number of requests dropped even before entering the script routing logic''\<rparr>,
      \<lparr>name = ''dropped_replies_total'', stat = ''drop_replies'',
       regexp = None,
       valueType = CounterValue,
       helpText = ''Total number of replies dropped even before entering the script routing logic''\<rparr>,
      \<lparr>name = ''error_requests_total'', stat = ''err_requests'',
       regexp = None,
       valueType = CounterValue,
       helpText = ''Total number of bogus or invalid requests''\<rparr>,
      \<lparr>name = ''error_replies_total'', stat = ''err_replies'',
       regexp = None,
       valueType = CounterValue,
       helpText = ''Total number of bogus or invalid replies''\<rparr>,
      \<lparr>name = ''bad_uris_received_total'', stat = ''bad_URIs_rcvd'',
       regexp = None,
       valueType = CounterValue,
       helpText = ''Total number of URIs that OpenSIPS failed to parse''\<rparr>,
      \<lparr>name = ''unsupported_methods_total'', stat = ''unsupported_methods'',
       regexp = None,
       valueType = CounterValue,
       helpText = ''Total number of non-standard methods encountered by OpenSIPS while parsing SIP methods''\<rparr>,
      \<lparr>name = ''bad_message_headers_total'', stat = ''bad_msg_hdr'',
       regexp = None,
       valueType = CounterValue,
       helpText = ''Total number of SIP headers that OpenSIPS failed to parse''\<rparr>,
      \<lparr>name = ''uptime_seconds_total'', stat = ''timestamp'',
       regexp = None,
       valueType = CounterValue,
       helpText = ''The number of seconds elapsed from OpenSIPS starting''\<rparr>]"

definition dialog_stats :: "stat list" where
  "dialog_stats =
     [\<lparr>name = ''active_dialogs'', stat = ''active_dialogs'',
       regexp = None,
       valueType = GaugeValue,
       helpText = ''Number of active dialogs''\<rparr>,
      \<lparr>name = ''early_dialogs'', stat = ''early_dialogs'',
       regexp = None,
       valueType = GaugeValue,
       helpText = ''Number of early dialogs''\<rparr>,
      \<lparr>name = ''processed_dialogs_total'', stat = ''processed_dialogs'',
       regexp = None,
       valueType = CounterValue,
       helpText = ''Total number of processed dialogs''\<rparr>,
      \<lparr>name = ''expired_dialogs_total'', stat = ''expired_dialogs'',
       regexp = None,
       valueType = CounterValue,
       helpText = ''Total number of expired dialogs''\<rparr>,
      \<lparr>name = ''failed_dialogs_total'', stat = ''failed_dialogs'',
       regexp = None,
       valueType = CounterValue,
       helpText = ''Total number of failed dialogs''\<rparr>,
      \<lparr>name = ''replication_messages_sent_total'', stat = '''',
       regexp = Some \<lparr>pre = '''', groupName = ''operation'', body = AnyPlus, post = ''_sent''\<rparr>,
       valueType = CounterValue,
       helpText = ''Total number of replication messages sent''\<rparr>,
      \<lparr>name = ''replication_messages_received_total'', stat = '''',
       regexp = Some \<lparr>pre = '''', groupName = ''operation'', body = AnyPlus, post = ''_recv''\<rparr>,
       valueType = CounterValue,
       helpText = ''Total number of replication messages received''\<rparr>]"

definition load_stats :: "stat list" where
  "load_stats =
     [\<lparr>name = ''load'', stat = ''load'',
       regexp = None,
       valueType = GaugeValue,
       helpText = ''The real time load of core OpenSIPS processes''\<rparr>,
      \<lparr>name = ''load_all'', stat = ''load-all'',
       regexp = None,
       valueType = GaugeValue,
       helpText = ''The real time load of all OpenSIPS processes''\<rparr>,
      \<lparr>name = ''process_load'', stat = '''',
       regexp = Some \<lparr>pre = ''load-proc-'', groupName = ''id'', body = DigitPlus, post = ''''\<rparr>,
       valueType = GaugeValue,
       helpText = ''he real time load of the OpenSIPS process #id''\<rparr>]"

definition msilo_stats :: "stat list" where
  "msilo_stats =
     [\<lparr>name = ''stored_messages_total'', stat = ''stored_messages'',
       regexp = None,
       valueType = CounterValue,
       helpText = ''Total number of stored messages''\<rparr>,
      \<lparr>name = ''dumped_messages_total'', stat = ''dumped_messages'',
       regexp = None,
       valueType = CounterValue,
       helpText = ''Total number of dumped messages''\<rparr>,
      \<lparr>name = ''failed_messages_total'', stat = ''failed_messages'',
       regexp = None,
       valueType = CounterValue,
       helpText = ''Total number of failed messages''\<rparr>,
      \<lparr>name = ''dumped_reminders_total'', stat = ''dumped_reminders'',
       regexp = None,
       valueType = CounterValue,
       helpText = ''Total number of dumped reminders''\<rparr>,
      \<lparr>name = ''failed_reminders_total'', stat = ''failed_reminders'',
       regexp = None,
       valueType = CounterValue,
       helpText = ''Total number of failed reminders''\<rparr>]"

definition nat_traversal_stats :: "stat list" where
  "nat_traversal_stats =
     [\<lparr>name = ''keepalive_endpoints'', stat = ''keepalive_endpoints'',
       regexp = None,
       valueType = GaugeValue,
       helpText = ''Current number of keepalive endpoints''\<rparr>,
      \<lparr>name = ''registered_endpoints'', stat = ''registered_endpoints'',
       regexp = None,
       valueType = GaugeValue,
       helpText = ''Current number of registered endpoints''\<rparr>,
      \<lparr>name = ''subscribed_endpoints'', stat = ''subscribed_endpoints'',
       regexp = None,
       valueType = GaugeValue,
       helpText = ''Current number of subscribed endpoints''\<rparr>,
      \<lparr>name = ''dialog_endpoints'', stat = ''dialog_endpoints'',
       regexp = None,
       valueType = GaugeValue,
       helpText = ''Current number of dialog endpoints''\<rparr>]"

definition net_stats :: "stat list" where
  "net_stats =
     [\<lparr>name = ''waiting_bytes'', stat = '''',
       regexp = Some \<lparr>pre = ''waiting_'', groupName = ''transport'', body = AnyPlus, post = ''''\<rparr>,
       valueType = GaugeValue,
       helpText = ''The number of bytes waiting to be consumed on interfaces that OpenSIPS is listening on''\<rparr>]"

definition pkmem_stats :: "stat list" where
  "pkmem_stats =
     [\<lparr>name = ''total_size_bytes'', stat = '''',
       regexp = Some \<lparr>pre = '''', groupName = ''id'', body = DigitPlus, post = ''-total_size''\<rparr>,
       valueType = GaugeValue,
       helpText = ''The total size of private memory available to OpenSIPS process #id''\<rparr>,
      \<lparr>name = ''used_size_bytes'', stat = '''',
       regexp = Some \<lparr>pre = '''', groupName = ''id'', body = DigitPlus, post = ''-used_size''\<rparr>,
       valueType = GaugeValue,
       helpText = ''The total size of private memory used by OpenSIPS process #id''\<rparr>,
      \<lparr>name = ''real_used_size_bytes'', stat = '''',
       regexp = Some \<lparr>pre = '''', groupName = ''id'', body = DigitPlus, post = ''-real_used_size''\<rparr>,
       valueType = GaugeValue,
       helpText = ''The total size of private memory (including overhead) used by OpenSIPS process #id''\<rparr>,
      \<lparr>name = ''max_used_size_bytes'', stat = '''',
       regexp = Some \<lparr>pre = '''', groupName = ''id'', body = DigitPlus, post = ''-max_used_size''\<rparr>,
       valueType = GaugeValue,
       helpText = ''The maximum amount of private memory ever used by OpenSIPS process #id''\<rparr>,
      \<lparr>name = ''free_size_bytes'', stat = '''',
       regexp = Some \<lparr>pre = '''', groupName = ''id'', body = DigitPlus, post = ''-free_size''\<rparr>,
       valueType = GaugeValue,
       helpText = ''The free private memory available for OpenSIPS process #id''\<rparr>,
      \<lparr>name = ''fragments'', stat = '''',
       regexp = Some \<lparr>pre = '''', groupName = ''id'', body = DigitPlus, post = ''-fragments''\<rparr>,
       valueType = GaugeValue,
       helpText = ''The number of fragments in the private memory for OpenSIPS process #''\<rparr>]"

definition registrar_stats :: "stat list" where
  "registrar_stats =
     [\<lparr>name = ''max_expires'', stat = ''max_expires'',
       regexp = None,
       valueType = GaugeValue,
       helpText = ''The value of the max_expires module parameter''\<rparr>,
      \<lparr>name = ''max_contacts'', stat = ''max_contacts'',
       regexp = None,
       valueType = GaugeValue,
       helpText = ''The value of the max_contacts module parameter''\<rparr>,
      \<lparr>name = ''default_expires'', stat = ''default_expire'',
       regexp = None,
       valueType = GaugeValue,
       helpText = ''The value of the default_expires module parameter''\<rparr>,
      \<lparr>name = ''accepted_registrations_total'', stat = ''accepted_registrations'',
       regexp = None,
       valueType = CounterValue,
       helpText = ''Total number of accepted registrations''\<rparr>,
      \<lparr>name = ''rejected_registrations_total'', stat = ''rejected_registrations'',
       regexp = None,
       valueType = CounterValue,
       helpText = ''Total number of rejected registrations''\<rparr>]"

definition shmem_stats :: "stat list" where
  "shmem_stats =
     [\<lparr>name = ''total_size_bytes'', stat = ''total_size'',
       regexp = None,
       valueType = GaugeValue,
       helpText = ''The total size of shared memory available to OpenSIPS processes''\<rparr>,
      \<lparr>name = ''used_size_bytes'', stat = ''used_size'',
       regexp = None,
       valueType = GaugeValue,
       helpText = ''The total size of shared memory used by OpenSIPS processes''\<rparr>,
      \<lparr>name = ''real_used_size_bytes'', stat = ''real_used_size'',
       regexp = None,
       valueType = GaugeValue,
       helpText = ''The total size of shared memory used (including overhead) by OpenSIPS processes''\<rparr>,
      \<lparr>name = ''max_used_size_bytes'', stat = ''max_used_size'',
       regexp = None,
       valueType = GaugeValue,
       helpText = ''The maximum amount of shared memory used by OpenSIPS processes''\<rparr>,
      \<lparr>name = ''free_size_bytes'', stat = ''free_size'',
       regexp = None,
       valueType = GaugeValue,
       helpText = ''The amount of free shared memory available to OpenSIPS processes''\<rparr>,
      \<lparr>name = ''fragments'', stat = ''fragments'',
       regexp = None,
       valueType = GaugeValue,
       helpText = ''The number of fragments in the shared memory used by OpenSIPS processes''\<rparr>]"

definition sipcapture_stats :: "stat list" where
  "sipcapture_stats =
     [\<lparr>name = ''captured_requests_total'', stat = ''captured_requests'',
       regexp = None,
       valueType = CounterValue,
       helpText = ''Total number of SIP requests captured''\<rparr>,
      \<lparr>name = ''captured_replies_total'', stat = ''captured_replies'',
       regexp = None,
       valueType = CounterValue,
       helpText = ''Total number of SIP replies captured''\<rparr>]"

definition siptrace_stats :: "stat list" where
  "siptrace_stats =
     [\<lparr>name = ''traced_requests_total'', stat = ''traced_requests'',
       regexp = None,
       valueType = CounterValue,
       helpText = ''Total number of traced requests''\<rparr>,
      \<lparr>name = ''traced_replies_total'', stat = ''traced_replies'',
       regexp = None,
       valueType = CounterValue,
       helpText = ''Total number of traced replies''\<rparr>]"

definition sl_stats :: "stat list" where
  "sl_stats =
     [\<lparr>name = ''sent_replies'', stat = '''',
       regexp = Some \<lparr>pre = '''', groupName = ''code'', body = CodeXX, post = ''_replies''\<rparr>,
       valueType = CounterValue,
       helpText = ''Total number of sent replies by status code''\<rparr>,
      \<lparr>name = ''sent_replies_total'', stat = ''sent_replies'',
       regexp = None,
       valueType = CounterValue,
       helpText = ''Total number of sent replies''\<rparr>,
      \<lparr>name = ''sent_error_replies_total'', stat = ''sent_err_replies'',
       regexp = None,
       valueType = CounterValue,
       helpText = ''Total number of sent error replies''\<rparr>,
      \<lparr>name = ''received_acks_total'', stat = ''received_ACKs'',
       regexp = None,
       valueType = CounterValue,
       helpText = ''Total number of ACK replies received''\<rparr>]"

definition sst_stats :: "stat list" where
  "sst_stats =
     [\<lparr>name = ''expired_sst_total'', stat = ''expired_sst'',
       regexp = None,
       valueType = CounterValue,
       helpText = ''Total number of expired SST sessions''\<rparr>]"

definition tm_stats :: "stat list" where
  "tm_stats =
     [\<lparr>name = ''received_replies_total'', stat = ''received_replies'',
       regexp = None,
       valueType = CounterValue,
       helpText = ''Total number of replies received''\<rparr>,
      \<lparr>name = ''relayed_replies_total'', stat = ''relayed_replies'',
       regexp = None,
       valueType = CounterValue,
       helpText = ''Total number of replies relayed''\<rparr>,
      \<lparr>name = ''local_replies_total'', stat = ''local_replies'',
       regexp = None,
       valueType = CounterValue,
       helpText = ''Total number of local replies sent''\<rparr>,
      \<lparr>name = ''uas_transactions_total'', stat = ''UAS_transactions'',
       regexp = None,
       valueType = CounterValue,
       helpText = ''Total number of UAS transactions''\<rparr>,
      \<lparr>name = ''uac_transactions_total'', stat = ''UAC_transactions'',
       regexp = None,
       valueType = CounterValue,
       helpText = ''Total number of UAC transactions''\<rparr>,
      \<lparr>name = ''transactions_total'', stat = '''',
       regexp = Some \<lparr>pre = '''', groupName = ''code'', body = CodeXX, post = ''_transactions''\<rparr>,
       valueType = CounterValue,
       helpText = ''Total number of transactions by status code''\<rparr>,
      \<lparr>name = ''inuse_transactions'', stat = ''inuse_transactions'',
       regexp = None,
       valueType = GaugeValue,
       helpText = ''Number of transactions currently in-use''\<rparr>]"

definition uri_stats :: "stat list" where
  "uri_stats =
     [\<lparr>name = ''positive_checks_total'', stat = ''positive_checks'',
       regexp = None,
       valueType = CounterValue,
       helpText = ''Total number of positive URI checks''\<rparr>,
      \<lparr>name = ''negative_checks_total'', stat = ''negative_checks'',
       regexp = None,
       valueType = CounterValue,
       helpText = ''Total number of negative URI checks''\<rparr>]"

definition usrloc_stats :: "stat list" where
  "usrloc_stats =
     [\<lparr>name = ''registered_users'', stat = ''registered_users'',
       regexp = None,
       valueType = GaugeValue,
       helpText = ''Current number of registered users''\<rparr>]"

definition opensipsStats :: "(string \<times> stat list) list" where
  "opensipsStats =
  [(''core'', core_stats),
   (''dialog'', dialog_stats),
   (''load'', load_stats),
   (''msilo'', msilo_stats),
   (''nat_traversal'', nat_traversal_stats),
   (''net'', net_stats),
   (''pkmem'', pkmem_stats),
   (''registrar'', registrar_stats),
   (''shmem'', shmem_stats),
   (''sipcapture'', sipcapture_stats),
   (''siptrace'', siptrace_stats),
   (''sl'', sl_stats),
   (''sst'', sst_stats),
   (''tm'', tm_stats),
   (''uri'', uri_stats),
   (''usrloc'', usrloc_stats)]"

text \<open>
  \<open>init\<close> gives every catalog entry its descriptor; \<open>statDesc subsys st\<close> is the
  \<open>desc\<close> field of entry \<open>st\<close> of subsystem \<open>subsys\<close> after \<open>init\<close>.
\<close>

definition statDesc :: "string \<Rightarrow> stat \<Rightarrow> Desc" where
  "statDesc subsys st =
     NewDesc (BuildFQName namespace subsys (name st)) (helpText st)
       (case regexp st of None \<Rightarrow> [] | Some re \<Rightarrow> tl (SubexpNames re))"

section \<open>The exporter (package main)\<close>

text \<open>
  The connection to OpenSIPS. \<open>opensips_mi.Client\<close> is an interface; one connection is
  opened per collection pass and no command is issued twice with the same arguments in
  a pass, so what the monitored system answers in a pass is a function \<open>respond\<close> of the
  command and its arguments. \<open>issued\<close> records the commands sent so far, in order.
\<close>

type_synonym go_error = string

record Client =
  respond :: "string \<Rightarrow> string list \<Rightarrow> go_error + MINode"
  issued :: "(string \<times> string list) list"

definition Command :: "Client \<Rightarrow> string \<Rightarrow> string list \<Rightarrow> (go_error + MINode) \<times> Client" where
  "Command conn cmd args = (respond conn cmd args, conn\<lparr>issued := issued conn @ [(cmd, args)]\<rparr>)"

text \<open>
  The cached fields of \<open>opensipsExporter\<close>. The two maps are association lists with
  \<open>AList.update\<close> as the store; the order of \<open>profiles\<close> is the order in which the pass
  ranges over the map. The mutex is not modelled: a pass is taken on its own.
\<close>

record opensipsExporter =
  commands :: "(string \<times> bool) list"
  processes :: "string list list"
  profiles :: "(string \<times> bool) list"
  lastUptime :: float64

definition index_bool :: "(string \<times> bool) list \<Rightarrow> string \<Rightarrow> bool" where
  "index_bool m k = (case map_of m k of None \<Rightarrow> False | Some b \<Rightarrow> b)"

definition up_desc :: Desc where
  "up_desc = NewDesc (BuildFQName namespace [] ''up'') ''1 if OpenSIPS is running'' []"

definition versionInfo_desc :: Desc where
  "versionInfo_desc = NewDesc (BuildFQName namespace [] ''version_info'')
     ''Version information (always 1)'' [''server'', ''version'', ''arch'', ''os'']"

definition processInfo_desc :: Desc where
  "processInfo_desc = NewDesc (BuildFQName namespace [] ''process_info'')
     ''Process information (always 1)'' [''id'', ''type'']"

definition profilesValuesInfo_desc :: Desc where
  "profilesValuesInfo_desc = NewDesc (BuildFQName namespace ''dialog'' ''profiles_with_values_count'')
     ''Dialog profiles with counts'' [''profile'', ''value'']"

definition newOpensipsExporter :: opensipsExporter where
  "newOpensipsExporter = \<lparr>commands = [], processes = [], profiles = [], lastUptime = Fin 0\<rparr>"

definition upMetric :: "real \<Rightarrow> Metric" where
  "upMetric up = ConstMetric up_desc GaugeValue (Fin up) []"

text \<open>
  The descriptors of \<open>newOpensipsExporter\<close> and of the catalog are fixed and valid, and
  the metrics built on them carry as many label values as the descriptor has names, so
  \<open>MustNewConstMetric\<close> returns the metric there (lemmas \<open>static_descs_valid\<close> and
  \<open>catalog_descs_valid\<close> below). The descriptor that \<open>collectDialogProfiles\<close> builds
  from the keys of a value string is the one that can be refused.
\<close>

subsection \<open>collectVersionInfo, fetchCommands, collectProcessInfo\<close>

definition collectVersionInfo :: "stdlib \<Rightarrow> Client \<Rightarrow> go_error option \<times> Metric list \<times> Client" where
  "collectVersionInfo L conn =
     (case Command conn ''version'' [] of
        (Inl err, conn1) \<Rightarrow> (Some err, [], conn1)
      | (Inr resp, conn1) \<Rightarrow>
          (case versionFind L (index_str (ChildValues resp) ''Server'') of
             Some m \<Rightarrow> (None, [ConstMetric versionInfo_desc GaugeValue (Fin 1) (tl m)], conn1)
           | None \<Rightarrow> (None, [], conn1)))"

definition fetchCommands :: "Client \<Rightarrow> opensipsExporter \<Rightarrow> opensipsExporter \<times> Client" where
  "fetchCommands conn ose =
     (case Command conn ''which'' [] of
        (Inl err, conn1) \<Rightarrow> (ose, conn1)
      | (Inr resp, conn1) \<Rightarrow>
          (ose\<lparr>commands := foldl (\<lambda>cmds node. AList.update (Value node) True cmds) [] (Children resp)\<rparr>,
           conn1))"

definition collectProcessInfo ::
  "stdlib \<Rightarrow> Client \<Rightarrow> opensipsExporter \<Rightarrow> bool \<Rightarrow> opensipsExporter \<times> Metric list \<times> Client" where
  "collectProcessInfo L conn ose update =
     (if update then
        (case Command conn ''ps'' [] of
           (Inl err, conn1) \<Rightarrow> (ose, [], conn1)
         | (Inr resp, conn1) \<Rightarrow>
             (let ose' = ose\<lparr>processes :=
                           map (\<lambda>node. [index_str (Attrs node) ''ID'',
                                        TrimSpace L (index_str (Attrs node) ''Type'')])
                               (Children resp)\<rparr>
              in (ose', map (\<lambda>proc. ConstMetric processInfo_desc GaugeValue (Fin 1) proc) (processes ose'), conn1)))
      else (ose, map (\<lambda>proc. ConstMetric processInfo_desc GaugeValue (Fin 1) proc) (processes ose), conn))"

subsection \<open>collectStats\<close>

text \<open>\<open>strings.SplitN(s, ":", 2)\<close> and \<open>strings.Replace(s, " ", "_", -1)\<close>.\<close>

definition SplitN2 :: "string \<Rightarrow> string list" where
  "SplitN2 s =
     (if CHR '':'' \<in> set s
      then [takeWhile (\<lambda>c. c \<noteq> CHR '':'') s, tl (dropWhile (\<lambda>c. c \<noteq> CHR '':'') s)]
      else [s])"

definition ReplaceSpaces :: "string \<Rightarrow> string" where
  "ReplaceSpaces s = map (\<lambda>c. if c = CHR '' '' then CHR ''_'' else c) s"

text \<open>
  Lines 191-202: the scan of one subsystem's definitions for a flat name, in list order,
  leaving at the first definition that matches. The result is what is sent on the channel.
\<close>

fun matchStats :: "string \<Rightarrow> stat list \<Rightarrow> string \<Rightarrow> float64 \<Rightarrow> Metric list" where
  "matchStats subsys [] metric v = []"
| "matchStats subsys (st # stats) metric v =
     (case regexp st of
        Some re \<Rightarrow>
          (case FindStringSubmatch re metric of
             Some mm \<Rightarrow> [ConstMetric (statDesc subsys st) (valueType st) v (tl mm)]
           | None \<Rightarrow> matchStats subsys stats metric v)
      | None \<Rightarrow>
          if metric = stat st then [ConstMetric (statDesc subsys st) (valueType st) v []]
          else matchStats subsys stats metric v)"

text \<open>Lines 170-203: the loop over the entries of the dump, with the running \<open>uptime\<close>.\<close>

fun collectStatsLoop ::
  "stdlib \<Rightarrow> (string \<times> string) list \<Rightarrow> float64 \<Rightarrow> Metric list \<Rightarrow> float64 \<times> Metric list" where
  "collectStatsLoop L [] uptime ch = (uptime, ch)"
| "collectStatsLoop L ((statName, statValue) # rest) uptime ch =
     (let parts = SplitN2 statName in
      if length parts \<noteq> 2 then collectStatsLoop L rest uptime ch
      else
        (let subsys = parts ! 0; metric = ReplaceSpaces (parts ! 1) in
         case ParseFloat L statValue of
           None \<Rightarrow> collectStatsLoop L rest uptime ch
         | Some v \<Rightarrow>
             (let uptime' = (if statName = ''core:timestamp'' then v else uptime) in
              case map_of opensipsStats subsys of
                None \<Rightarrow> collectStatsLoop L rest uptime' ch
              | Some stats \<Rightarrow> collectStatsLoop L rest uptime' (ch @ matchStats subsys stats metric v))))"

definition collectStats :: "stdlib \<Rightarrow> Client \<Rightarrow> float64 \<times> Metric list \<times> Client" where
  "collectStats L conn =
     (case Command conn ''get_statistics'' [''all''] of
        (Inl err, conn1) \<Rightarrow> (Fin 0, [], conn1)
      | (Inr resp, conn1) \<Rightarrow>
          (case collectStatsLoop L (case ChildValues resp of None \<Rightarrow> [] | Some cv \<Rightarrow> cv) (Fin 0) [] of
             (uptime, ch) \<Rightarrow> (uptime, ch, conn1)))"

subsection \<open>collectDialogProfiles\<close>

text \<open>
  \<open>profileValuesRegexp\<close> is \<open>(?:^|,)([a-z0-9_]+)=([^,]*)\<close>. A match starts at the
  beginning of the text or at a comma, and its last group runs up to the next comma, so
  the successive non-overlapping matches that \<open>FindAllStringSubmatch\<close> returns are, in
  order, those comma-separated segments of the text that begin with a non-empty run of
  \<open>[a-z0-9_]\<close> followed by \<open>=\<close>. Each match is the list of the whole match and the
  two groups; no match at all is Go's nil, here the empty list.
\<close>

fun splitOn :: "char \<Rightarrow> string \<Rightarrow> string list" where
  "splitOn c [] = [[]]"
| "splitOn c (x # xs) =
     (if x = c then [] # splitOn c xs
      else (case splitOn c xs of [] \<Rightarrow> [[x]] | seg # segs \<Rightarrow> (x # seg) # segs))"

definition isKeyChar :: "char \<Rightarrow> bool" where
  "isKeyChar c = (c \<in> set ''abcdefghijklmnopqrstuvwxyz0123456789_'')"

definition segMatch :: "string \<Rightarrow> (string \<times> string) option" where
  "segMatch seg =
     (let k = takeWhile isKeyChar seg in
      if k = [] then None
      else (case dropWhile isKeyChar seg of
              [] \<Rightarrow> None
            | c # v \<Rightarrow> if c = CHR ''='' then Some (k, v) else None))"

fun segMatches :: "bool \<Rightarrow> string list \<Rightarrow> string list list" where
  "segMatches first [] = []"
| "segMatches first (seg # segs) =
     (case segMatch seg of
        None \<Rightarrow> []
      | Some (k, v) \<Rightarrow> [[(if first then [] else '','') @ k @ ''='' @ v, k, v]])
     @ segMatches False segs"

definition profileValuesFindAll :: "string \<Rightarrow> string list list" where
  "profileValuesFindAll s = segMatches True (splitOn CHR '','' s)"

text \<open>
  Lines 242-271: what one node of a \<open>profile_get_values\<close> response sends, or the
  panic of \<open>MustNewConstMetric\<close>.
\<close>

definition profileNodeMetrics :: "stdlib \<Rightarrow> string \<Rightarrow> MINode \<Rightarrow> prom_error + Metric list" where
  "profileNodeMetrics L profile node =
     (case ParseFloat L (index_str (Attrs node) ''count'') of
        None \<Rightarrow> Inr []
      | Some count \<Rightarrow>
          (let matches = profileValuesFindAll (Value node) in
           case (if matches \<noteq> [] then
                   MustNewConstMetric
                     (NewDesc (BuildFQName namespace ''dialog'' ''profiles_with_values_count'')
                        ''Dialog profiles with counts''
                        (foldl (\<lambda>labelNames m. labelNames @ [m ! 1]) [''profile''] matches))
                     GaugeValue count
                     (foldl (\<lambda>labels m. labels @ [m ! 2]) [profile] matches)
                 else MustNewConstMetric profilesValuesInfo_desc GaugeValue count
                        [profile, Value node]) of
             Inl p \<Rightarrow> Inl p
           | Inr m \<Rightarrow> Inr [m]))"

text \<open>
  Lines 241-272: the loop over the nodes of one response. A panic ends it; what was sent
  before stays sent.
\<close>

fun profileNodesLoop ::
  "stdlib \<Rightarrow> string \<Rightarrow> MINode list \<Rightarrow> Metric list \<Rightarrow> Metric list \<times> prom_error option" where
  "profileNodesLoop L profile [] ch = (ch, None)"
| "profileNodesLoop L profile (node # rest) ch =
     (case profileNodeMetrics L profile node of
        Inl p \<Rightarrow> (ch, Some p)
      | Inr ms \<Rightarrow> profileNodesLoop L profile rest (ch @ ms))"

text \<open>
  Lines 231-273: the loop over the cached profiles. The last component of the result is
  the panic that ended the loop, if one did.
\<close>

fun profilesLoop ::
  "stdlib \<Rightarrow> Client \<Rightarrow> (string \<times> bool) list \<Rightarrow> Metric list
     \<Rightarrow> Metric list \<times> Client \<times> prom_error option" where
  "profilesLoop L conn [] ch = (ch, conn, None)"
| "profilesLoop L conn ((profile, hasValues) # rest) ch =
     (if \<not> hasValues then profilesLoop L conn rest ch
      else
        (case Command conn ''profile_get_values'' [profile] of
           (Inl err, conn1) \<Rightarrow> profilesLoop L conn1 rest ch
         | (Inr getResp, conn1) \<Rightarrow>
             (case profileNodesLoop L profile (Children getResp) ch of
                (ch', Some p) \<Rightarrow> (ch', conn1, Some p)
              | (ch', None) \<Rightarrow> profilesLoop L conn1 rest ch')))"

text \<open>Lines 219-222: the profile map built from the \<open>list_all_profiles\<close> response.\<close>

definition profilesOf :: "(string \<times> string) list \<Rightarrow> (string \<times> bool) list" where
  "profilesOf cv = foldl (\<lambda>ps (profile, hasValues). AList.update profile (hasValues \<noteq> ''0'') ps) [] cv"

definition collectDialogProfiles ::
  "stdlib \<Rightarrow> Client \<Rightarrow> opensipsExporter \<Rightarrow> bool
     \<Rightarrow> opensipsExporter \<times> Metric list \<times> Client \<times> prom_error option" where
  "collectDialogProfiles L conn ose update =
     (if update then
        (case Command conn ''list_all_profiles'' [] of
           (Inl err, conn1) \<Rightarrow> (ose, [], conn1, None)
         | (Inr resp, conn1) \<Rightarrow>
             (let ose' = ose\<lparr>profiles := profilesOf (case ChildValues resp of None \<Rightarrow> [] | Some cv \<Rightarrow> cv)\<rparr>
              in (case profilesLoop L conn1 (profiles ose') [] of
                    (ch, conn2, p) \<Rightarrow> (ose', ch, conn2, p))))
      else (case profilesLoop L conn (profiles ose) [] of (ch, conn2, p) \<Rightarrow> (ose, ch, conn2, p)))"

subsection \<open>Collect\<close>

text \<open>Lines 95-107: the restart check that ends a pass.\<close>

definition restartCheck :: "float64 \<Rightarrow> opensipsExporter \<Rightarrow> opensipsExporter" where
  "restartCheck uptime ose =
     (let restart = f64_lt uptime (lastUptime ose) in
      if restart
      then ose\<lparr>commands := [], processes := [], profiles := [], lastUptime := uptime\<rparr>
      else ose)"

text \<open>
  Lines 69-93, the steps between the version probe and the restart check. The result is
  the cache, the metrics sent, the connection, the pass's \<open>uptime\<close> and the panic
  that ended the steps, if one did.
\<close>

definition collectSteps ::
  "stdlib \<Rightarrow> Client \<Rightarrow> opensipsExporter
     \<Rightarrow> opensipsExporter \<times> Metric list \<times> Client \<times> float64 \<times> prom_error option" where
  "collectSteps L conn ose =
     (let hasCommands = (length (commands ose) > 0);
          hasProcesses = (length (processes ose) > 0);
          hasProfiles = (length (profiles ose) > 0);
          (ose1, conn1) = (if \<not> hasCommands then fetchCommands conn ose else (ose, conn));
          hasStatisticsCommand = index_bool (commands ose1) ''get_statistics'';
          hasProfilesCommand = index_bool (commands ose1) ''list_all_profiles'';
          (ose2, ch2, conn2) = collectProcessInfo L conn1 ose1 (\<not> hasProcesses);
          (uptime, ch3, conn3) = (if hasStatisticsCommand then collectStats L conn2 else (Fin 0, [], conn2));
          (ose4, ch4, conn4, p) = (if hasProfilesCommand
                                   then collectDialogProfiles L conn3 ose2 (\<not> hasProfiles)
                                   else (ose2, [], conn3, None))
      in (ose4, ch2 @ ch3 @ ch4, conn4, uptime, p))"

text \<open>
  \<open>Collect\<close> (lines 51-108). \<open>connect\<close> is the result of \<open>NewMIJsonClient\<close>. The
  deferred function sends the \<open>up\<close> gauge when the pass returns or panics, so it is the
  last metric. A panic in the steps leaves the pass before the restart check. The result
  is the cache after the pass, the metrics in the order sent, the commands issued, and
  the panic that ended the pass, if one did.
\<close>

definition Collect ::
  "stdlib \<Rightarrow> go_error + Client \<Rightarrow> opensipsExporter
     \<Rightarrow> opensipsExporter \<times> Metric list \<times> (string \<times> string list) list \<times> prom_error option" where
  "Collect L connect ose =
     (case connect of
        Inl err \<Rightarrow> (ose, [upMetric 0], [], None)
      | Inr conn \<Rightarrow>
          (case collectVersionInfo L conn of
             (Some err, ch1, conn1) \<Rightarrow> (ose, ch1 @ [upMetric 0], issued conn1, None)
           | (None, ch1, conn1) \<Rightarrow>
               (case collectSteps L conn1 ose of
                  (ose4, ch, conn4, uptime, None) \<Rightarrow>
                    (restartCheck uptime ose4, ch1 @ ch @ [upMetric 1], issued conn4, None)
                | (ose4, ch, conn4, uptime, Some p) \<Rightarrow>
                    (ose4, ch1 @ ch @ [upMetric 1], issued conn4, Some p))))"

section \<open>Notions used to state the properties\<close>

text \<open>
  The store of lines 211-213 on an allocated map: a child with a non-empty name is
  recorded under its name, a nameless child leaves the map as it is.
\<close>

definition recordChild :: "(string \<times> string) list \<Rightarrow> MINode \<Rightarrow> (string \<times> string) list" where
  "recordChild cv c = (if Name c \<noteq> [] then AList.update (Name c) (Value c) cv else cv)"

text \<open>The entries of a map whose value is a string, in order.\<close>

fun stringEntries :: "(string \<times> json) list \<Rightarrow> (string \<times> string) list" where
  "stringEntries [] = []"
| "stringEntries ((k, JString vs) # m) = (k, vs) # stringEntries m"
| "stringEntries ((k, v) # m) = stringEntries m"

text \<open>
  A map is an explicit node when lines 112-169 set \<open>isNode\<close>: \<open>name\<close> or \<open>value\<close>
  holds a string, \<open>attributes\<close> a map, or \<open>children\<close> a list or a map. It is a
  singleton-wrapped array when it has one key and that key holds a list.
\<close>

definition isExplicitNode :: "(string \<times> json) list \<Rightarrow> bool" where
  "isExplicitNode mapval =
     ((case map_of mapval ''name'' of Some (JString s) \<Rightarrow> True | _ \<Rightarrow> False)
      \<or> (case map_of mapval ''value'' of Some (JString s) \<Rightarrow> True | _ \<Rightarrow> False)
      \<or> (case map_of mapval ''attributes'' of Some (JMap m) \<Rightarrow> True | _ \<Rightarrow> False)
      \<or> (case map_of mapval ''children'' of Some (JList l) \<Rightarrow> True | Some (JMap m) \<Rightarrow> True | _ \<Rightarrow> False))"

definition isSingletonArray :: "(string \<times> json) list \<Rightarrow> bool" where
  "isSingletonArray mapval = (case mapval of [(k, JList lst)] \<Rightarrow> True | _ \<Rightarrow> False)"

text \<open>
  The matcher as the specification words it. \<open>spec_labels st metric\<close> are the label
  values when definition \<open>st\<close> matches the flat name: a literal definition matches by
  string equality and has no labels, a pattern definition matches by its pattern and has
  the text of its group as label. \<open>spec_match\<close> returns the emission for the first
  definition of the list that matches, if there is one.
\<close>

definition spec_labels :: "stat \<Rightarrow> string \<Rightarrow> string list option" where
  "spec_labels st metric =
     (case regexp st of
        None \<Rightarrow> if metric = stat st then Some [] else None
      | Some re \<Rightarrow> (case FindStringSubmatch re metric of Some mm \<Rightarrow> Some (tl mm) | None \<Rightarrow> None))"

definition spec_match :: "string \<Rightarrow> stat list \<Rightarrow> string \<Rightarrow> float64 \<Rightarrow> Metric option" where
  "spec_match subsys stats metric v =
     (case find (\<lambda>st. spec_labels st metric \<noteq> None) stats of
        None \<Rightarrow> None
      | Some st \<Rightarrow> Some (ConstMetric (statDesc subsys st) (valueType st) v (the (spec_labels st metric))))"

text \<open>
  An entry of the statistics dump is dropped, in the specification's words, when its
  value fails floating-point parsing, when its subsystem is absent from the catalog, or
  when its flat name matches no definition of its subsystem.
\<close>

definition spec_dropped :: "stdlib \<Rightarrow> string \<times> string \<Rightarrow> bool" where
  "spec_dropped L e =
     (case e of (statName, statValue) \<Rightarrow>
        ParseFloat L statValue = None
        \<or> (length (SplitN2 statName) = 2 \<and>
            (case map_of opensipsStats (SplitN2 statName ! 0) of
               None \<Rightarrow> True
             | Some stats \<Rightarrow>
                 list_all (\<lambda>st. spec_labels st (ReplaceSpaces (SplitN2 statName ! 1)) = None) stats)))"

text \<open>
  Successive collection passes on the same exporter, one connection attempt each, up to
  the first pass that panics.
\<close>

fun runPasses :: "stdlib \<Rightarrow> (go_error + Client) list \<Rightarrow> opensipsExporter \<Rightarrow> opensipsExporter" where
  "runPasses L [] ose = ose"
| "runPasses L (connect # rest) ose =
     (case Collect L connect ose of
        (ose', ch, cmds, None) \<Rightarrow> runPasses L rest ose'
      | (ose', ch, cmds, Some p) \<Rightarrow> ose')"

text \<open>
  The key=value pairs of a profile value string, in the specification's words: the
  comma-separated segments that have the form key=value, in order.
\<close>

definition spec_pairs :: "string \<Rightarrow> (string \<times> string) list" where
  "spec_pairs s = List.map_filter segMatch (splitOn CHR '','' s)"

subsection \<open>A monitored system for the concrete runs\<close>

text \<open>
  The library functions restricted to the strings that occur in the runs below, on which
  they agree with Go: the numerals parse to their values and every other string used as
  a number there ("x") is rejected; the process type has no surrounding white space; the
  server string has no parenthesised version, so \<open>versionRegexp\<close> does not match.
\<close>

definition demo_stdlib :: stdlib where
  "demo_stdlib =
     \<lparr>ParseFloat = (\<lambda>s. if s = ''7'' then Some (Fin 7)
                        else if s = ''10'' then Some (Fin 10)
                        else if s = ''500'' then Some (Fin 500)
                        else if s = ''600'' then Some (Fin 600)
                        else if s = ''-5'' then Some (Fin (- 5))
                        else None),
      TrimSpace = (\<lambda>s. s),
      versionFind = (\<lambda>s. None)\<rparr>"

text \<open>
  A monitored system that answers every command of a pass; \<open>timestamp\<close> is the value
  it reports for \<open>core:timestamp\<close>.
\<close>

definition demo_respond :: "string \<Rightarrow> string \<Rightarrow> string list \<Rightarrow> go_error + MINode" where
  "demo_respond timestamp cmd args =
     (if cmd = ''version'' then Inr (MINode [] [] None [] (Some [(''Server'', ''OpenSIPS'')]))
      else if cmd = ''which'' then
        Inr (MINode [] [] None
               [MINode [] ''get_statistics'' None [] None,
                MINode [] ''list_all_profiles'' None [] None] None)
      else if cmd = ''ps'' then
        Inr (MINode [] [] None
               [MINode [] [] (Some [(''ID'', ''1''), (''Type'', ''attendant'')]) [] None] None)
      else if cmd = ''get_statistics'' then
        Inr (MINode [] [] None []
               (Some [(''core:timestamp'', timestamp), (''core:rcv_requests'', ''7'')]))
      else if cmd = ''list_all_profiles'' then
        Inr (MINode [] [] None [] (Some [(''p1'', ''0''), (''p2'', ''1''), (''p3'', [])]))
      else if cmd = ''profile_get_values'' \<and> args = [''p2''] then
        Inr (MINode [] [] None
               [MINode [] ''key1=a,key2=b'' (Some [(''count'', ''7'')]) [] None] None)
      else Inl ''unknown command'')"

definition demo_conn :: "string \<Rightarrow> Client" where
  "demo_conn timestamp = \<lparr>respond = demo_respond timestamp, issued = []\<rparr>"

definition down_conn :: Client where
  "down_conn = \<lparr>respond = (\<lambda>cmd args. Inl ''connection refused''), issued = []\<rparr>"

text \<open>The cache that a first pass against this system leaves behind.\<close>

definition demo_cache :: opensipsExporter where
  "demo_cache =
     \<lparr>commands = [(''get_statistics'', True), (''list_all_profiles'', True)],
      processes = [[''1'', ''attendant'']],
      profiles = [(''p1'', False), (''p2'', True), (''p3'', True)],
      lastUptime = Fin 0\<rparr>"

section \<open>Properties of the decoder\<close>

lemma sel_set [simp]:
  "Name (set_Name s n) = s" "Value (set_Name s n) = Value n" "Attrs (set_Name s n) = Attrs n"
  "Children (set_Name s n) = Children n" "ChildValues (set_Name s n) = ChildValues n"
  "Name (set_Children c n) = Name n" "Value (set_Children c n) = Value n"
  "Attrs (set_Children c n) = Attrs n"
  "Children (set_Children c n) = c" "ChildValues (set_Children c n) = ChildValues n"
  "Name (set_ChildValues cv n) = Name n" "Value (set_ChildValues cv n) = Value n"
  "Attrs (set_ChildValues cv n) = Attrs n"
  "Children (set_ChildValues cv n) = Children n" "ChildValues (set_ChildValues cv n) = cv"
  by (cases n; simp)+

lemma set_set [simp]:
  "set_Children c (set_Children c' n) = set_Children c n"
  "set_ChildValues cv (set_ChildValues cv' n) = set_ChildValues cv n"
  "set_Children c (set_ChildValues cv n) = set_ChildValues cv (set_Children c n)"
  by (cases n; simp)+

text \<open>
  \<^bold>\<open>C2.\<close> The decoder is a total function: the recursion of \<open>fromJson\<close> and its loops
  is well-founded on the size of the JSON value (the termination proof above). It does
  crash, though. \<open>fromJsonList\<close> stores into \<open>n.ChildValues\<close> without allocating the
  map, and at each of its three call sites the map is still nil; so a list element that
  decodes to a node with a non-empty name raises "assignment to entry in nil map". The
  theorem evaluates the decoder on \<open>{"children": [{"name": "a"}]}\<close> and on the
  singleton-wrapped array \<open>{"Process": [{"name": "a"}]}\<close>: both panic.
\<close>

theorem C2_list_with_named_element_panics:
  "fromJson emptyNode (JMap [(''children'', JList [JMap [(''name'', JString ''a'')]])]) = Inl NilMapPanic
   \<and> fromJson emptyNode (JMap [(''Process'', JList [JMap [(''name'', JString ''a'')]])]) = Inl NilMapPanic"
  by (simp add: nodeHeader_def emptyNode_def appendChild_def)

text \<open>
  The panic is not tied to that input: with the map unallocated, any list whose first
  element decodes to a named node panics, and a list whose first element fails to decode
  fails with that element's error.
\<close>

lemma named_first_element_panics:
  "ChildValues n = None \<Longrightarrow> fromJson emptyNode elem = Inr child \<Longrightarrow> Name child \<noteq> [] \<Longrightarrow>
   fromJsonList n (elem # rest) = Inl NilMapPanic"
  by (simp add: appendChild_def)

lemma failing_element_fails_list:
  "fromJson emptyNode elem = Inl err \<Longrightarrow> fromJsonList n (elem # rest) = Inl err"
  by simp

lemma loop_nameless:
  "list_all2 (\<lambda>elem child. fromJson emptyNode elem = Inr child) lst cs \<Longrightarrow>
   \<forall>c \<in> set cs. Name c = [] \<Longrightarrow>
   fromJsonListLoop n lst = Inr (set_Children (Children n @ cs) n)"
proof (induction lst cs arbitrary: n rule: list_all2_induct)
  case Nil
  then show ?case by (cases n) simp
next
  case (Cons e c lst cs)
  then show ?case by (simp add: appendChild_def)
qed

lemma loop_allocated:
  "list_all2 (\<lambda>elem child. fromJson emptyNode elem = Inr child) lst cs \<Longrightarrow>
   ChildValues n = Some cv \<Longrightarrow>
   fromJsonListLoop n lst =
     Inr (set_ChildValues (Some (foldl recordChild cv cs)) (set_Children (Children n @ cs) n))"
proof (induction lst cs arbitrary: n cv rule: list_all2_induct)
  case Nil
  then show ?case by (cases n) simp
next
  case (Cons e c lst cs)
  then show ?case by (simp add: appendChild_def recordChild_def)
qed

lemma last_write_wins:
  "k \<noteq> [] \<Longrightarrow> map_of (foldl recordChild cv cs) k =
     (case find (\<lambda>c. Name c = k) (rev cs) of None \<Rightarrow> map_of cv k | Some c \<Rightarrow> Some (Value c))"
proof (induction cs rule: rev_induct)
  case Nil
  then show ?case by simp
next
  case (snoc c cs)
  then show ?case
    by (auto simp: recordChild_def update_conv' split: option.splits)
qed

text \<open>
  \<^bold>\<open>C3\<close> fails as stated: a list handed to \<open>fromJson\<close> is rejected by the default
  branch of the type switch, and \<open>fromJsonList\<close>, which decodes the lists found inside a
  map, fails when an element does.
\<close>

theorem C3_list_input_counterexample:
  "fromJson emptyNode (JList [JMap [(''value'', JString ''x'')]]) = Inl (UnsupportedType TSlice)
   \<and> fromJsonList emptyNode [JString ''x''] = Inl (UnsupportedType TString)"
  by (simp add: emptyNode_def)

text \<open>
  \<^bold>\<open>C3, amended.\<close> A list handed to \<open>fromJson\<close> is a decode error. For a list found
  inside a map, \<open>fromJsonList\<close> on the receiving node \<open>n\<close>: when every element decodes,
  to the nodes \<open>cs\<close>, and all of them are nameless, the result is \<open>n\<close> with \<open>cs\<close> as its
  ordered children; when the \<open>ChildValues\<close> map of \<open>n\<close> is allocated, the result has
  \<open>cs\<close> as its ordered children and every child with a non-empty name recorded in
  \<open>ChildValues\<close> in encounter order, so that a name looks up the value of the last child
  that carries it.
\<close>

theorem C3_fromJsonList_children:
  "fromJson n (JList lst) = Inl (UnsupportedType TSlice) \<and>
   (list_all2 (\<lambda>elem child. fromJson emptyNode elem = Inr child) lst cs \<longrightarrow>
      ((\<forall>c \<in> set cs. Name c = []) \<longrightarrow> fromJsonList n lst = Inr (set_Children cs n)) \<and>
      (\<forall>cv. ChildValues n = Some cv \<longrightarrow>
         fromJsonList n lst =
           Inr (set_ChildValues (Some (foldl recordChild cv cs)) (set_Children cs n)) \<and>
         (\<forall>k. k \<noteq> [] \<longrightarrow>
            map_of (foldl recordChild cv cs) k =
              (case find (\<lambda>c. Name c = k) (rev cs) of
                 None \<Rightarrow> map_of cv k
               | Some c \<Rightarrow> Some (Value c)))))"
  by (simp add: loop_nameless loop_allocated last_write_wins)

theorem C3_fromJsonList_children_witness:
  "list_all2 (\<lambda>elem child. fromJson emptyNode elem = Inr child)
     [JMap [(''value'', JString ''x'')], JMap [(''value'', JString ''y'')]]
     [MINode [] ''x'' None [] None, MINode [] ''y'' None [] None]
   \<and> fromJsonList (MINode ''p'' [] None [] None)
        [JMap [(''value'', JString ''x'')], JMap [(''value'', JString ''y'')]]
      = Inr (MINode ''p'' [] None [MINode [] ''x'' None [] None, MINode [] ''y'' None [] None] None)
   \<and> list_all2 (\<lambda>elem child. fromJson emptyNode elem = Inr child)
     [JMap [(''name'', JString ''a''), (''value'', JString ''1'')],
      JMap [(''name'', JString ''a''), (''value'', JString ''2'')]]
     [MINode ''a'' ''1'' None [] None, MINode ''a'' ''2'' None [] None]
   \<and> fromJsonList (MINode ''p'' [] None [] (Some []))
        [JMap [(''name'', JString ''a''), (''value'', JString ''1'')],
         JMap [(''name'', JString ''a''), (''value'', JString ''2'')]]
      = Inr (MINode ''p'' [] None [MINode ''a'' ''1'' None [] None, MINode ''a'' ''2'' None [] None]
               (Some [(''a'', ''2'')]))"
proof -
  have h1: "list_all2 (\<lambda>elem child. fromJson emptyNode elem = Inr child)
     [JMap [(''value'', JString ''x'')], JMap [(''value'', JString ''y'')]]
     [MINode [] ''x'' None [] None, MINode [] ''y'' None [] None]"
    by (simp add: nodeHeader_def emptyNode_def)
  have h2: "list_all2 (\<lambda>elem child. fromJson emptyNode elem = Inr child)
     [JMap [(''name'', JString ''a''), (''value'', JString ''1'')],
      JMap [(''name'', JString ''a''), (''value'', JString ''2'')]]
     [MINode ''a'' ''1'' None [] None, MINode ''a'' ''2'' None [] None]"
    by (simp add: nodeHeader_def emptyNode_def)
  show ?thesis
    using h1 h2
      C3_fromJsonList_children [of "MINode ''p'' [] None [] None"
        "[JMap [(''value'', JString ''x'')], JMap [(''value'', JString ''y'')]]"
        "[MINode [] ''x'' None [] None, MINode [] ''y'' None [] None]"]
      C3_fromJsonList_children [of "MINode ''p'' [] None [] (Some [])"
        "[JMap [(''name'', JString ''a''), (''value'', JString ''1'')],
          JMap [(''name'', JString ''a''), (''value'', JString ''2'')]]"
        "[MINode ''a'' ''1'' None [] None, MINode ''a'' ''2'' None [] None]"]
    by (simp add: recordChild_def del: fromJsonList.simps)
qed

lemma update_fresh: "k \<notin> fst ` set al \<Longrightarrow> AList.update k v al = al @ [(k, v)]"
  by (induction al) auto

lemma implicitLoop_distinct:
  "distinct (map fst m) \<Longrightarrow> ChildValues n = Some cv \<Longrightarrow> fst ` set cv \<inter> fst ` set m = {} \<Longrightarrow>
   implicitLoop n m =
     set_ChildValues (Some (cv @ stringEntries m))
       (set_Children (Children n @ map (\<lambda>(k, vs). MINode k vs None [] None) (stringEntries m)) n)"
proof (induction n m arbitrary: cv rule: implicitLoop.induct)
  case (1 n)
  then show ?case by (cases n) simp
next
  case (2 n k vs m)
  have "k \<notin> fst ` set cv" using 2 by auto
  then have upd: "AList.update k vs cv = cv @ [(k, vs)]" by (rule update_fresh)
  have "fst ` set (cv @ [(k, vs)]) \<inter> fst ` set m = {}" using 2 by auto
  with 2 upd show ?case by simp
qed auto

lemma case_not_string:
  "\<not> (case x of Some (JString s) \<Rightarrow> True | _ \<Rightarrow> False) \<Longrightarrow>
   (case x of Some (JString s) \<Rightarrow> f s | _ \<Rightarrow> d) = d"
  by (auto split: option.splits json.splits)

lemma case_not_map:
  "\<not> (case x of Some (JMap m) \<Rightarrow> True | _ \<Rightarrow> False) \<Longrightarrow>
   (case x of Some (JMap m) \<Rightarrow> f m | _ \<Rightarrow> d) = d"
  by (auto split: option.splits json.splits)

lemma case_not_list_map:
  "\<not> (case x of Some (JList l) \<Rightarrow> True | Some (JMap m) \<Rightarrow> True | _ \<Rightarrow> False) \<Longrightarrow>
   (case x of Some (JList l) \<Rightarrow> f l | Some (JMap m) \<Rightarrow> g m | _ \<Rightarrow> d) = d"
  by (auto split: option.splits json.splits)

lemma nodeHeader_notNode:
  assumes "\<not> isExplicitNode mapval"
  shows "nodeHeader n mapval = (n, False)"
proof -
  from assms have
    a: "\<not> (case map_of mapval ''name'' of Some (JString s) \<Rightarrow> True | _ \<Rightarrow> False)" and
    b: "\<not> (case map_of mapval ''value'' of Some (JString s) \<Rightarrow> True | _ \<Rightarrow> False)" and
    c: "\<not> (case map_of mapval ''attributes'' of Some (JMap m) \<Rightarrow> True | _ \<Rightarrow> False)"
    unfolding isExplicitNode_def by blast+
  show ?thesis
    unfolding nodeHeader_def
    by (simp only: case_not_string[OF a] case_not_string[OF b] case_not_map[OF c] Let_def prod.case)
qed

lemma not_singleton_case:
  "\<not> isSingletonArray mapval \<Longrightarrow> (case mapval of [(k, JList lst)] \<Rightarrow> f k lst | _ \<Rightarrow> d) = d"
  by (auto simp: isSingletonArray_def split: list.splits prod.splits json.splits)

lemma children_not_node:
  assumes "\<not> isExplicitNode mapval"
  shows "(case map_of mapval ''children'' of
            Some (JList l) \<Rightarrow> f l | Some (JMap m) \<Rightarrow> g m | _ \<Rightarrow> d) = d"
proof -
  from assms have
    "\<not> (case map_of mapval ''children'' of
           Some (JList l) \<Rightarrow> True | Some (JMap m) \<Rightarrow> True | _ \<Rightarrow> False)"
    unfolding isExplicitNode_def by blast
  then show ?thesis by (rule case_not_list_map)
qed

lemma fromJson_implicit:
  assumes "\<not> isExplicitNode mapval" "\<not> isSingletonArray mapval"
  shows "fromJson n (JMap mapval) =
           Inr (implicitLoop (set_ChildValues (Some []) (set_Children [] n)) mapval)"
  by (simp only: fromJson.simps nodeHeader_notNode[OF assms(1)] prod.case
        children_not_node[OF assms(1)] not_singleton_case[OF assms(2)] if_False)

text \<open>
  \<^bold>\<open>C4\<close> fails as stated: in a map that is neither an explicit node nor a
  singleton-wrapped array, a key whose value is a number, a map or a list is passed over;
  it is neither an error nor a child. (The recursion, the list case and the error belong
  to the loop over a map found under \<open>children\<close>, lines 147-166.)
\<close>

theorem C4_implicit_map_counterexample:
  "fromJson emptyNode
     (JMap [(''a'', JNum 1), (''b'', JMap [(''c'', JString ''d'')]), (''e'', JList [])])
   = Inr (MINode [] [] None [] (Some []))"
  by (simp add: nodeHeader_def emptyNode_def)

text \<open>
  \<^bold>\<open>C4, amended.\<close> For a map (with its keys distinct, as in every Go map) that is
  neither an explicit node nor a singleton-wrapped array, decoding succeeds: the node's
  children are one (name, value) leaf for each key whose value is a string, in iteration
  order, \<open>ChildValues\<close> holds exactly these keys with their strings, and the keys with
  any other value leave no trace.
\<close>

theorem C4_implicit_map_string_keys:
  assumes "\<not> isExplicitNode mapval" "\<not> isSingletonArray mapval" "distinct (map fst mapval)"
  shows "fromJson n (JMap mapval) =
     Inr (MINode (Name n) (Value n) (Attrs n)
            (map (\<lambda>(k, vs). MINode k vs None [] None) (stringEntries mapval))
            (Some (stringEntries mapval)))"
proof -
  have "implicitLoop (set_ChildValues (Some []) (set_Children [] n)) mapval =
        set_ChildValues (Some ([] @ stringEntries mapval))
          (set_Children (Children (set_ChildValues (Some []) (set_Children [] n))
             @ map (\<lambda>(k, vs). MINode k vs None [] None) (stringEntries mapval))
            (set_ChildValues (Some []) (set_Children [] n)))"
    using assms(3) by (intro implicitLoop_distinct) simp_all
  then show ?thesis
    unfolding fromJson_implicit[OF assms(1,2)] by (cases n) simp
qed

theorem C4_implicit_map_string_keys_witness:
  "\<not> isExplicitNode [(''core:a'', JString ''1''), (''x'', JBool True), (''core:b'', JString ''2'')]
   \<and> \<not> isSingletonArray [(''core:a'', JString ''1''), (''x'', JBool True), (''core:b'', JString ''2'')]
   \<and> distinct (map fst [(''core:a'', JString ''1''), (''x'', JBool True), (''core:b'', JString ''2'')])
   \<and> fromJson emptyNode
        (JMap [(''core:a'', JString ''1''), (''x'', JBool True), (''core:b'', JString ''2'')])
      = Inr (MINode [] [] None
               [MINode ''core:a'' ''1'' None [] None, MINode ''core:b'' ''2'' None [] None]
               (Some [(''core:a'', ''1''), (''core:b'', ''2'')]))"
proof -
  have h1: "\<not> isExplicitNode [(''core:a'', JString ''1''), (''x'', JBool True), (''core:b'', JString ''2'')]"
    by (simp add: isExplicitNode_def)
  have h2: "\<not> isSingletonArray [(''core:a'', JString ''1''), (''x'', JBool True), (''core:b'', JString ''2'')]"
    by (simp add: isSingletonArray_def)
  have h3: "distinct (map fst [(''core:a'', JString ''1''), (''x'', JBool True), (''core:b'', JString ''2'')])"
    by simp
  show ?thesis
    using h1 h2 h3 C4_implicit_map_string_keys [OF h1 h2 h3, of emptyNode]
    by (simp add: emptyNode_def del: fromJson.simps)
qed

section \<open>Properties of the matcher\<close>

lemma FindStringSubmatch_full:
  "FindStringSubmatch re s = Some mm \<longleftrightarrow>
     (\<exists>g. s = pre re @ g @ post re \<and> bodyMatches (body re) g \<and> mm = [s, g])"
proof
  assume a: "FindStringSubmatch re s = Some mm"
  define a1 where "a1 = length (pre re)"
  define k where "k = length s - length (pre re) - length (post re)"
  define mid where "mid = take k (drop a1 s)"
  from a have len: "length (pre re) + length (post re) \<le> length s"
    and p: "take a1 s = pre re"
    and q: "drop (length s - length (post re)) s = post re"
    and m: "bodyMatches (body re) mid" and mm: "mm = [s, mid]"
    unfolding a1_def k_def mid_def
    by (auto simp: FindStringSubmatch_def Let_def split: if_splits)
  have "k + a1 = length s - length (post re)"
    using len unfolding k_def a1_def by arith
  then have "drop k (drop a1 s) = post re"
    using q by (simp only: drop_drop)
  then have "drop a1 s = mid @ post re"
    unfolding mid_def by (metis append_take_drop_id)
  then have "s = pre re @ mid @ post re"
    using p by (metis append_take_drop_id)
  with m mm show "\<exists>g. s = pre re @ g @ post re \<and> bodyMatches (body re) g \<and> mm = [s, g]" by blast
next
  assume "\<exists>g. s = pre re @ g @ post re \<and> bodyMatches (body re) g \<and> mm = [s, g]"
  then show "FindStringSubmatch re s = Some mm"
    by (auto simp: FindStringSubmatch_def Let_def)
qed

lemma spec_labels_literal:
  "regexp st = None \<Longrightarrow> (spec_labels st metric = Some labels \<longleftrightarrow> metric = stat st \<and> labels = [])"
  by (auto simp: spec_labels_def)

lemma spec_labels_pattern:
  assumes "regexp st = Some re"
  shows "spec_labels st metric = Some labels \<longleftrightarrow>
            (\<exists>g. metric = pre re @ g @ post re \<and> bodyMatches (body re) g \<and> labels = [g])"
proof -
  have "spec_labels st metric = Some labels \<longleftrightarrow>
          (\<exists>mm. FindStringSubmatch re metric = Some mm \<and> labels = tl mm)"
    using assms by (auto simp: spec_labels_def split: option.splits)
  also have "\<dots> \<longleftrightarrow> (\<exists>g. metric = pre re @ g @ post re \<and> bodyMatches (body re) g \<and> labels = [g])"
    unfolding FindStringSubmatch_full by auto
  finally show ?thesis .
qed

lemma spec_labels_length:
  "spec_labels st metric = Some labels \<Longrightarrow>
   length labels = length (variableLabels (statDesc subsys st))"
proof (cases "regexp st")
  case None
  then show "spec_labels st metric = Some labels \<Longrightarrow> ?thesis"
    by (simp add: spec_labels_literal statDesc_def NewDesc_def)
next
  case (Some re)
  then show "spec_labels st metric = Some labels \<Longrightarrow> ?thesis"
    by (auto simp: spec_labels_pattern statDesc_def NewDesc_def SubexpNames_def)
qed

lemma matchStats_Cons_match:
  "spec_labels st metric = Some labels \<Longrightarrow>
   matchStats subsys (st # stats) metric v = [ConstMetric (statDesc subsys st) (valueType st) v labels]"
  by (cases "regexp st") (auto simp: spec_labels_def split: option.splits if_splits)

lemma matchStats_Cons_nomatch:
  "spec_labels st metric = None \<Longrightarrow>
   matchStats subsys (st # stats) metric v = matchStats subsys stats metric v"
  by (cases "regexp st") (auto simp: spec_labels_def split: option.splits if_splits)

lemma matchStats_spec:
  "matchStats subsys stats metric v =
     (case spec_match subsys stats metric v of None \<Rightarrow> [] | Some m \<Rightarrow> [m])"
proof (induction stats)
  case Nil
  show ?case by (simp add: spec_match_def)
next
  case (Cons st stats)
  show ?case
  proof (cases "spec_labels st metric")
    case None
    then have "spec_match subsys (st # stats) metric v = spec_match subsys stats metric v"
      by (simp add: spec_match_def)
    with None Cons show ?thesis by (simp only: matchStats_Cons_nomatch)
  next
    case (Some labels)
    then have "spec_match subsys (st # stats) metric v =
                 Some (ConstMetric (statDesc subsys st) (valueType st) v labels)"
      by (simp add: spec_match_def)
    with Some show ?thesis by (simp only: matchStats_Cons_match option.case)
  qed
qed

lemma matchStats_le1: "length (matchStats subsys stats metric v) \<le> 1"
  unfolding matchStats_spec by (cases "spec_match subsys stats metric v") simp_all

text \<open>
  \<^bold>\<open>C5.\<close> For every subsystem, definition list, flat name and value: the scan of
  \<open>collectStats\<close> sends exactly what the first definition of the list that matches
  gives, and nothing when none matches, hence at most one metric. A literal definition
  matches exactly when the flat name equals its \<open>stat\<close> string, with no label values. A
  pattern definition matches exactly when the whole flat name is the pattern's prefix, a
  text that its group accepts, and the pattern's suffix; the label values are the text of
  the group, as many as the descriptor has label names.
\<close>

theorem C5_matchStats_first_match:
  "matchStats subsys stats metric v =
     (case spec_match subsys stats metric v of None \<Rightarrow> [] | Some m \<Rightarrow> [m])
   \<and> length (matchStats subsys stats metric v) \<le> 1
   \<and> (regexp st = None \<longrightarrow>
        (spec_labels st metric = Some labels \<longleftrightarrow> metric = stat st \<and> labels = []))
   \<and> (\<forall>re. regexp st = Some re \<longrightarrow>
         (spec_labels st metric = Some labels \<longleftrightarrow>
            (\<exists>g. metric = pre re @ g @ post re \<and> bodyMatches (body re) g \<and> labels = [g])))
   \<and> (spec_labels st metric = Some labels \<longrightarrow>
        length labels = length (variableLabels (statDesc subsys st)))"
  using matchStats_spec[of subsys stats metric v] matchStats_le1[of subsys stats metric v]
    spec_labels_literal[of st metric labels] spec_labels_pattern[of st _ metric labels]
    spec_labels_length[of st metric labels subsys]
  by blast

theorem C5_matchStats_first_match_witness:
  "regexp (hd core_stats) = None
   \<and> spec_labels (hd core_stats) ''rcv_requests'' = Some []
   \<and> matchStats ''core'' core_stats ''rcv_requests'' (Fin 42) =
       [ConstMetric (NewDesc ''opensips_core_received_requests_total''
          ''The total number of received requests by OpenSIPS'' []) CounterValue (Fin 42) []]
   \<and> regexp (load_stats ! 2) =
       Some \<lparr>pre = ''load-proc-'', groupName = ''id'', body = DigitPlus, post = []\<rparr>
   \<and> spec_labels (load_stats ! 2) ''load-proc-3'' = Some [''3'']
   \<and> matchStats ''load'' load_stats ''load-proc-3'' (Fin 1) =
       [ConstMetric (NewDesc ''opensips_load_process_load''
          ''he real time load of the OpenSIPS process #id'' [''id'']) GaugeValue (Fin 1) [''3'']]"
proof -
  have load2: "load_stats ! 2 = \<lparr>name = ''process_load'', stat = [],
       regexp = Some \<lparr>pre = ''load-proc-'', groupName = ''id'', body = DigitPlus, post = []\<rparr>,
       valueType = GaugeValue, helpText = ''he real time load of the OpenSIPS process #id''\<rparr>"
    by (simp add: load_stats_def)
  have a: "regexp (hd core_stats) = None" by (simp add: core_stats_def)
  have b: "spec_labels (hd core_stats) ''rcv_requests'' = Some []"
    by (simp add: core_stats_def spec_labels_def)
  have c: "spec_match ''core'' core_stats ''rcv_requests'' (Fin 42) =
       Some (ConstMetric (NewDesc ''opensips_core_received_requests_total''
          ''The total number of received requests by OpenSIPS'' []) CounterValue (Fin 42) [])"
    by (simp add: core_stats_def spec_match_def spec_labels_def statDesc_def BuildFQName_def
        namespace_def)
  have d: "regexp (load_stats ! 2) =
       Some \<lparr>pre = ''load-proc-'', groupName = ''id'', body = DigitPlus, post = []\<rparr>"
    by (simp add: load2)
  have e: "spec_labels (load_stats ! 2) ''load-proc-3'' = Some [''3'']"
    by (simp add: load2 spec_labels_def FindStringSubmatch_def Let_def)
  have f: "spec_match ''load'' load_stats ''load-proc-3'' (Fin 1) =
       Some (ConstMetric (NewDesc ''opensips_load_process_load''
          ''he real time load of the OpenSIPS process #id'' [''id'']) GaugeValue (Fin 1) [''3''])"
    by (simp add: load_stats_def spec_match_def spec_labels_def statDesc_def BuildFQName_def
        namespace_def FindStringSubmatch_def SubexpNames_def Let_def)
  show ?thesis
    using a b c d e f
      C5_matchStats_first_match [of "''core''" core_stats "''rcv_requests''" "Fin 42"
        "hd core_stats" "[]"]
      C5_matchStats_first_match [of "''load''" load_stats "''load-proc-3''" "Fin 1"
        "load_stats ! 2" "[''3'']"]
    by (simp del: matchStats.simps)
qed

section \<open>Properties of the statistics loop\<close>

lemma core_lookup: "map_of opensipsStats ''core'' = Some core_stats"
  by (simp add: opensipsStats_def)

lemma timestamp_split: "SplitN2 ''core:timestamp'' = [''core'', ''timestamp'']"
  by (simp add: SplitN2_def)

lemma timestamp_matches: "\<not> list_all (\<lambda>st. spec_labels st ''timestamp'' = None) core_stats"
  by (simp add: core_stats_def spec_labels_def)

lemma no_labels_no_match:
  "list_all (\<lambda>st. spec_labels st metric = None) stats \<Longrightarrow> spec_match subsys stats metric v = None"
  by (induction stats) (simp_all add: spec_match_def)

lemma dropped_not_timestamp:
  assumes "spec_dropped L (statName, statValue)" "ParseFloat L statValue = Some v"
  shows "statName \<noteq> ''core:timestamp''"
proof
  assume "statName = ''core:timestamp''"
  with assms show False
    using timestamp_matches
    by (simp add: spec_dropped_def timestamp_split core_lookup ReplaceSpaces_def)
qed

lemma dropped_step:
  assumes "spec_dropped L (statName, statValue)"
  shows "collectStatsLoop L ((statName, statValue) # rest) uptime ch =
         collectStatsLoop L rest uptime ch"
proof (cases "ParseFloat L statValue")
  case None
  then show ?thesis by (simp add: Let_def)
next
  case (Some v)
  note nts = dropped_not_timestamp[OF assms Some]
  from assms Some have len: "length (SplitN2 statName) = 2"
    and cat: "(case map_of opensipsStats (SplitN2 statName ! 0) of
               None \<Rightarrow> True
             | Some stats \<Rightarrow>
                 list_all (\<lambda>st. spec_labels st (ReplaceSpaces (SplitN2 statName ! 1)) = None) stats)"
    by (auto simp: spec_dropped_def)
  show ?thesis
  proof (cases "map_of opensipsStats (SplitN2 statName ! 0)")
    case None
    then show ?thesis using Some len nts by (simp add: Let_def)
  next
    case (Some stats)
    with cat have
      "spec_match (SplitN2 statName ! 0) stats (ReplaceSpaces (SplitN2 statName ! 1)) v = None"
      by (simp add: no_labels_no_match)
    then have "matchStats (SplitN2 statName ! 0) stats (ReplaceSpaces (SplitN2 statName ! 1)) v = []"
      by (simp add: matchStats_spec)
    then show ?thesis
      using Some \<open>ParseFloat L statValue = Some v\<close> len nts by (simp add: Let_def)
  qed
qed

lemma loop_step:
  "\<exists>u' ch'. \<forall>xs. collectStatsLoop L (a # xs) u ch = collectStatsLoop L xs u' ch'"
proof (cases a)
  case (Pair sn sv)
  show ?thesis
  proof (cases "length (SplitN2 sn) = 2")
    case False
    then have "\<forall>xs. collectStatsLoop L (a # xs) u ch = collectStatsLoop L xs u ch"
      using Pair by (simp add: Let_def)
    then show ?thesis by blast
  next
    case len: True
    show ?thesis
    proof (cases "ParseFloat L sv")
      case None
      then have "\<forall>xs. collectStatsLoop L (a # xs) u ch = collectStatsLoop L xs u ch"
        using Pair by (simp add: Let_def)
      then show ?thesis by blast
    next
      case (Some v)
      show ?thesis
      proof (cases "map_of opensipsStats (SplitN2 sn ! 0)")
        case None
        then have "\<forall>xs. collectStatsLoop L (a # xs) u ch =
                     collectStatsLoop L xs (if sn = ''core:timestamp'' then v else u) ch"
          using Pair len Some by (simp add: Let_def)
        then show ?thesis by blast
      next
        case (Some stats)
        then have "\<forall>xs. collectStatsLoop L (a # xs) u ch =
                     collectStatsLoop L xs (if sn = ''core:timestamp'' then v else u)
                       (ch @ matchStats (SplitN2 sn ! 0) stats (ReplaceSpaces (SplitN2 sn ! 1)) v)"
          using Pair len \<open>ParseFloat L sv = Some v\<close> by (simp add: Let_def)
        then show ?thesis by blast
      qed
    qed
  qed
qed

text \<open>
  \<^bold>\<open>C6.\<close> An entry of the dump whose value does not parse, whose subsystem the
  catalog does not have, or whose flat name matches no definition of its subsystem,
  wherever it stands in the dump, changes nothing: the loop over the dump ends with the
  same uptime and the same metrics sent as the loop over the dump without that entry.
  The loop has no error result, and it is a total function of the dump.
\<close>

theorem C6_dropped_entry_is_skipped:
  "spec_dropped L (statName, statValue) \<Longrightarrow>
   collectStatsLoop L (before @ (statName, statValue) # after) uptime ch =
   collectStatsLoop L (before @ after) uptime ch"
proof (induction before arbitrary: uptime ch)
  case Nil
  then show ?case by (simp only: append_Nil dropped_step)
next
  case (Cons a before)
  obtain u' ch' where st:
    "\<And>xs. collectStatsLoop L (a # xs) uptime ch = collectStatsLoop L xs u' ch'"
    using loop_step[of L a uptime ch] by blast
  show ?case
    using Cons by (simp only: append_Cons st)
qed

theorem C6_dropped_entry_is_skipped_witness:
  "spec_dropped demo_stdlib (''core:rcv_requests'', ''x'')
   \<and> spec_dropped demo_stdlib (''nosuchmodule:stat'', ''7'')
   \<and> spec_dropped demo_stdlib (''core:totally_unknown_stat'', ''7'')
   \<and> collectStatsLoop demo_stdlib
        [(''core:rcv_requests'', ''x''), (''nosuchmodule:stat'', ''7''),
         (''core:totally_unknown_stat'', ''7''), (''core:rcv_replies'', ''7'')] (Fin 0) []
      = (Fin 0,
         [ConstMetric (NewDesc ''opensips_core_received_replies_total''
            ''The total number of received replies by OpenSIPS'' []) CounterValue (Fin 7) []])"
proof -
  have p: "ParseFloat demo_stdlib ''x'' = None" "ParseFloat demo_stdlib ''7'' = Some (Fin 7)"
    by (simp_all add: demo_stdlib_def)
  have h1: "spec_dropped demo_stdlib (''core:rcv_requests'', ''x'')"
    by (simp add: spec_dropped_def p)
  have h2: "spec_dropped demo_stdlib (''nosuchmodule:stat'', ''7'')"
    by (simp add: spec_dropped_def SplitN2_def opensipsStats_def)
  have h3: "spec_dropped demo_stdlib (''core:totally_unknown_stat'', ''7'')"
    by (simp add: spec_dropped_def SplitN2_def core_lookup ReplaceSpaces_def core_stats_def
        spec_labels_def)
  have r: "collectStatsLoop demo_stdlib [(''core:rcv_replies'', ''7'')] (Fin 0) []
      = (Fin 0,
         [ConstMetric (NewDesc ''opensips_core_received_replies_total''
            ''The total number of received replies by OpenSIPS'' []) CounterValue (Fin 7) []])"
    by (simp add: p SplitN2_def core_lookup ReplaceSpaces_def core_stats_def statDesc_def
        BuildFQName_def namespace_def Let_def)
  show ?thesis
    using h1 h2 h3 r
      C6_dropped_entry_is_skipped [OF h1, of "[]"
        "[(''nosuchmodule:stat'', ''7''), (''core:totally_unknown_stat'', ''7''),
          (''core:rcv_replies'', ''7'')]" "Fin 0" "[]"]
      C6_dropped_entry_is_skipped [OF h2, of "[]"
        "[(''core:totally_unknown_stat'', ''7''), (''core:rcv_replies'', ''7'')]" "Fin 0" "[]"]
      C6_dropped_entry_is_skipped [OF h3, of "[]" "[(''core:rcv_replies'', ''7'')]" "Fin 0" "[]"]
    by (simp only: append_Nil simp_thms)
qed

section \<open>Properties of a collection pass\<close>


lemma Collect_connect_fails: "Collect L (Inl err) ose = (ose, [upMetric 0], [], None)"
  by (simp add: Collect_def)

lemma Collect_probe_fails:
  "respond conn ''version'' [] = Inl err \<Longrightarrow>
   Collect L (Inr conn) ose = (ose, [upMetric 0], issued conn @ [(''version'', [])], None)"
  by (simp add: Collect_def collectVersionInfo_def Command_def)

lemma Collect_probe_ok:
  "respond conn ''version'' [] = Inr resp \<Longrightarrow>
   \<exists>ch. fst (snd (Collect L (Inr conn) ose)) = ch @ [upMetric 1]"
  by (auto simp: Collect_def collectVersionInfo_def Command_def split: option.splits prod.splits)

text \<open>
  \<^bold>\<open>C7.\<close> When \<open>NewMIJsonClient\<close> fails, the pass sends the \<open>up\<close> gauge with value 0
  and nothing else, issues no command and leaves the cache as it was. When the
  \<open>version\<close> command fails, the same holds, \<open>version\<close> being the only command issued.
  When the \<open>version\<close> command succeeds, the last metric of the pass is the \<open>up\<close> gauge
  with value 1. The gauge is the metric \<open>opensips_up\<close>, without labels.
\<close>

theorem C7_probe_failure_stops_pass:
  "Collect L (Inl err) ose = (ose, [ConstMetric up_desc GaugeValue (Fin 0) []], [], None)
   \<and> (respond conn ''version'' [] = Inl err \<longrightarrow>
        Collect L (Inr conn) ose =
          (ose, [ConstMetric up_desc GaugeValue (Fin 0) []], issued conn @ [(''version'', [])], None))
   \<and> (respond conn ''version'' [] = Inr resp \<longrightarrow>
        (\<exists>ch. fst (snd (Collect L (Inr conn) ose)) = ch @ [ConstMetric up_desc GaugeValue (Fin 1) []]))
   \<and> up_desc = \<lparr>fqName = ''opensips_up'', descHelp = ''1 if OpenSIPS is running'',
                 variableLabels = []\<rparr>"
proof -
  have d: "up_desc = \<lparr>fqName = ''opensips_up'', descHelp = ''1 if OpenSIPS is running'',
                 variableLabels = []\<rparr>"
    by (simp add: up_desc_def NewDesc_def BuildFQName_def namespace_def)
  show ?thesis
    using Collect_connect_fails[of L err ose] Collect_probe_fails[of conn err L ose]
      Collect_probe_ok[of conn resp L ose] d
    unfolding upMetric_def by blast
qed

theorem C7_probe_failure_stops_pass_witness:
  "respond down_conn ''version'' [] = Inl ''connection refused''
   \<and> Collect demo_stdlib (Inr down_conn) demo_cache
       = (demo_cache, [ConstMetric up_desc GaugeValue (Fin 0) []], [(''version'', [])], None)
   \<and> respond (demo_conn ''500'') ''version'' []
       = Inr (MINode [] [] None [] (Some [(''Server'', ''OpenSIPS'')]))
   \<and> (\<exists>ch. fst (snd (Collect demo_stdlib (Inr (demo_conn ''500'')) demo_cache))
            = ch @ [ConstMetric up_desc GaugeValue (Fin 1) []])"
proof -
  have h1: "respond down_conn ''version'' [] = Inl ''connection refused''"
    by (simp add: down_conn_def)
  have i: "issued down_conn = []" by (simp add: down_conn_def)
  have h2: "respond (demo_conn ''500'') ''version'' []
       = Inr (MINode [] [] None [] (Some [(''Server'', ''OpenSIPS'')]))"
    by (simp add: demo_conn_def demo_respond_def)
  show ?thesis
    using h1 h2 i
      C7_probe_failure_stops_pass [of demo_stdlib "''connection refused''" demo_cache down_conn]
      C7_probe_failure_stops_pass [of demo_stdlib "[]" demo_cache "demo_conn ''500''"
        "MINode [] [] None [] (Some [(''Server'', ''OpenSIPS'')])"]
    by simp
qed

lemma foldl_snoc_map: "foldl (\<lambda>acc m. acc @ [f m]) acc0 ms = acc0 @ map f ms"
  by (induction ms arbitrary: acc0) simp_all

lemma segMatches_pairs:
  "map (\<lambda>m. (m ! 1, m ! 2)) (segMatches first segs) = List.map_filter segMatch segs"
  by (induction segs arbitrary: first) (auto simp: map_filter_simps split: option.splits)

lemma findAll_pairs:
  "map (\<lambda>m. m ! 1) (profileValuesFindAll s) = map fst (spec_pairs s)"
  "map (\<lambda>m. m ! 2) (profileValuesFindAll s) = map snd (spec_pairs s)"
proof -
  have p: "map (\<lambda>m. (m ! 1, m ! 2)) (profileValuesFindAll s) = spec_pairs s"
    unfolding profileValuesFindAll_def spec_pairs_def by (rule segMatches_pairs)
  have "map fst (map (\<lambda>m. (m ! 1, m ! 2)) (profileValuesFindAll s)) = map fst (spec_pairs s)"
    by (simp only: p)
  then show "map (\<lambda>m. m ! 1) (profileValuesFindAll s) = map fst (spec_pairs s)"
    by (simp only: map_map comp_def fst_conv)
  have "map snd (map (\<lambda>m. (m ! 1, m ! 2)) (profileValuesFindAll s)) = map snd (spec_pairs s)"
    by (simp only: p)
  then show "map (\<lambda>m. m ! 2) (profileValuesFindAll s) = map snd (spec_pairs s)"
    by (simp only: map_map comp_def snd_conv)
qed

lemma findAll_empty: "profileValuesFindAll s = [] \<longleftrightarrow> spec_pairs s = []"
  using findAll_pairs(1)[of s] by (metis map_is_Nil_conv)

lemma dynamic_fqName:
  "BuildFQName namespace ''dialog'' ''profiles_with_values_count''
     = ''opensips_dialog_profiles_with_values_count''"
  by (simp add: BuildFQName_def namespace_def)

lemma dynamic_fqName_valid: "validMetricName ''opensips_dialog_profiles_with_values_count''"
  by (simp add: validMetricName_def isLabelStart_def isLabelChar_def)

lemma profile_label_valid: "validLabelName ''profile''"
  by (simp add: validLabelName_def isLabelStart_def isLabelChar_def)

lemma profileNodeMetrics_pairs:
  assumes "ParseFloat L (index_str (Attrs node) ''count'') = Some count"
    and "spec_pairs (Value node) \<noteq> []"
  shows "profileNodeMetrics L profile node =
     (if distinct (''profile'' # map fst (spec_pairs (Value node)))
         \<and> list_all validLabelName (map fst (spec_pairs (Value node)))
      then Inr [ConstMetric
                  (NewDesc ''opensips_dialog_profiles_with_values_count''
                     ''Dialog profiles with counts''
                     (''profile'' # map fst (spec_pairs (Value node))))
                  GaugeValue count
                  (profile # map snd (spec_pairs (Value node)))]
      else Inl InvalidDescriptor)"
proof -
  have ne: "profileValuesFindAll (Value node) \<noteq> []"
    using assms(2) by (simp add: findAll_empty)
  have names: "foldl (\<lambda>labelNames m. labelNames @ [m ! 1]) [''profile'']
                 (profileValuesFindAll (Value node))
               = ''profile'' # map fst (spec_pairs (Value node))"
    by (simp only: foldl_snoc_map findAll_pairs append_Cons append_Nil)
  have vals: "foldl (\<lambda>labels m. labels @ [m ! 2]) [profile]
                 (profileValuesFindAll (Value node))
               = profile # map snd (spec_pairs (Value node))"
    by (simp only: foldl_snoc_map findAll_pairs append_Cons append_Nil)
  show ?thesis
    unfolding profileNodeMetrics_def Let_def names vals dynamic_fqName
    using assms(1) ne
    by (simp add: MustNewConstMetric_def descValid_def NewDesc_def dynamic_fqName_valid
        profile_label_valid)
qed


lemma pairs_example: "spec_pairs ''key1=a,key2=b'' = [(''key1'', ''a''), (''key2'', ''b'')]"
  by (simp add: spec_pairs_def segMatch_def isKeyChar_def map_filter_simps)

lemma key_labels_valid: "validLabelName ''key1''" "validLabelName ''key2''"
  by (simp_all add: validLabelName_def isLabelStart_def isLabelChar_def)

text \<open>
  A value string whose keys repeat, or contain the key \<open>profile\<close>, or contain a key that
  is not a label name, makes \<open>MustNewConstMetric\<close> panic: the node sends nothing and the
  pass is left.
\<close>

lemma repeated_or_reserved_key_panics:
  "ParseFloat L ''7'' = Some (Fin 7) \<Longrightarrow>
   profileNodeMetrics L profile (MINode [] ''a=1,a=2'' (Some [(''count'', ''7'')]) [] None)
     = Inl InvalidDescriptor
   \<and> profileNodeMetrics L profile (MINode [] ''profile=x'' (Some [(''count'', ''7'')]) [] None)
     = Inl InvalidDescriptor
   \<and> profileNodeMetrics L profile (MINode [] ''1st=x'' (Some [(''count'', ''7'')]) [] None)
     = Inl InvalidDescriptor"
proof -
  assume p: "ParseFloat L ''7'' = Some (Fin 7)"
  have c: "index_str (Some [(''count'', ''7'')]) ''count'' = ''7''" by (simp add: index_str_def)
  have s1: "spec_pairs ''a=1,a=2'' = [(''a'', ''1''), (''a'', ''2'')]"
    by (simp add: spec_pairs_def segMatch_def isKeyChar_def map_filter_simps)
  have s2: "spec_pairs ''profile=x'' = [(''profile'', ''x'')]"
    by (simp add: spec_pairs_def segMatch_def isKeyChar_def map_filter_simps)
  have s3: "spec_pairs ''1st=x'' = [(''1st'', ''x'')]"
    by (simp add: spec_pairs_def segMatch_def isKeyChar_def map_filter_simps)
  have v3: "\<not> validLabelName ''1st''"
    by (simp add: validLabelName_def isLabelStart_def)
  show ?thesis
    using p c s1 s2 s3 v3
      profileNodeMetrics_pairs[of L "MINode [] ''a=1,a=2'' (Some [(''count'', ''7'')]) [] None"
        "Fin 7" profile]
      profileNodeMetrics_pairs[of L "MINode [] ''profile=x'' (Some [(''count'', ''7'')]) [] None"
        "Fin 7" profile]
      profileNodeMetrics_pairs[of L "MINode [] ''1st=x'' (Some [(''count'', ''7'')]) [] None"
        "Fin 7" profile]
    by simp
qed



lemma catalog_descs_valid:
  "list_all (\<lambda>(subsys, stats). list_all (\<lambda>st. descValid (statDesc subsys st)) stats) opensipsStats"
  by (simp add: opensipsStats_def core_stats_def dialog_stats_def load_stats_def msilo_stats_def
      nat_traversal_stats_def net_stats_def pkmem_stats_def registrar_stats_def shmem_stats_def
      sipcapture_stats_def siptrace_stats_def sl_stats_def sst_stats_def tm_stats_def
      uri_stats_def usrloc_stats_def statDesc_def descValid_def NewDesc_def BuildFQName_def
      namespace_def SubexpNames_def validMetricName_def validLabelName_def isLabelStart_def
      isLabelChar_def)

lemma f64_le_not_lt: "f64_le a b \<Longrightarrow> \<not> f64_lt b a"
  by (cases a; cases b) simp_all

lemma f64_lt_trans: "f64_lt a b \<Longrightarrow> f64_lt b c \<Longrightarrow> f64_lt a c"
  by (cases a; cases b; cases c) simp_all

lemma fetchCommands_lastUptime: "lastUptime (fst (fetchCommands conn ose)) = lastUptime ose"
  by (simp add: fetchCommands_def split: prod.splits sum.splits)

lemma collectProcessInfo_lastUptime:
  "lastUptime (fst (collectProcessInfo L conn ose u)) = lastUptime ose"
  by (simp add: collectProcessInfo_def Let_def split: prod.splits sum.splits)

lemma collectDialogProfiles_lastUptime:
  "lastUptime (fst (collectDialogProfiles L conn ose u)) = lastUptime ose"
  by (simp add: collectDialogProfiles_def Let_def split: prod.splits sum.splits)

lemma collectSteps_lastUptime: "lastUptime (fst (collectSteps L conn ose)) = lastUptime ose"
proof -
  obtain ose1 conn1 where a:
    "(if \<not> length (commands ose) > 0 then fetchCommands conn ose else (ose, conn)) = (ose1, conn1)"
    by (cases "(if \<not> length (commands ose) > 0 then fetchCommands conn ose else (ose, conn))")
  have l1: "lastUptime ose1 = lastUptime ose"
    using a fetchCommands_lastUptime[of conn ose] by (auto split: if_splits)
  obtain ose2 ch2 conn2 where b:
    "collectProcessInfo L conn1 ose1 (\<not> length (processes ose) > 0) = (ose2, ch2, conn2)"
    by (cases "collectProcessInfo L conn1 ose1 (\<not> length (processes ose) > 0)")
  have l2: "lastUptime ose2 = lastUptime ose1"
    using b collectProcessInfo_lastUptime[of L conn1 ose1 "\<not> length (processes ose) > 0"] by simp
  obtain uptime ch3 conn3 where c:
    "(if index_bool (commands ose1) ''get_statistics'' then collectStats L conn2
      else (Fin 0, [], conn2)) = (uptime, ch3, conn3)"
    by (cases "(if index_bool (commands ose1) ''get_statistics'' then collectStats L conn2
                else (Fin 0, [], conn2))")
  obtain ose4 ch4 conn4 p where d:
    "(if index_bool (commands ose1) ''list_all_profiles''
      then collectDialogProfiles L conn3 ose2 (\<not> length (profiles ose) > 0)
      else (ose2, [], conn3, None)) = (ose4, ch4, conn4, p)"
    by (cases "(if index_bool (commands ose1) ''list_all_profiles''
                then collectDialogProfiles L conn3 ose2 (\<not> length (profiles ose) > 0)
                else (ose2, [], conn3, None))")
  have l4: "lastUptime ose4 = lastUptime ose2"
    using d collectDialogProfiles_lastUptime[of L conn3 ose2 "\<not> length (profiles ose) > 0"]
    by (auto split: if_splits)
  have "collectSteps L conn ose = (ose4, ch2 @ ch3 @ ch4, conn4, uptime, p)"
    unfolding collectSteps_def Let_def using a b c d by simp
  then show ?thesis using l1 l2 l4 by simp
qed

lemma restartCheck_cases:
  "restartCheck uptime ose = ose \<or>
   (f64_lt uptime (lastUptime ose) \<and>
    restartCheck uptime ose =
      ose\<lparr>commands := [], processes := [], profiles := [], lastUptime := uptime\<rparr>)"
  by (simp add: restartCheck_def)

lemma Collect_lastUptime:
  "lastUptime (fst (Collect L connect ose)) = lastUptime ose
   \<or> (f64_lt (lastUptime (fst (Collect L connect ose))) (lastUptime ose)
      \<and> commands (fst (Collect L connect ose)) = []
      \<and> processes (fst (Collect L connect ose)) = []
      \<and> profiles (fst (Collect L connect ose)) = [])"
proof (cases connect)
  case (Inl err)
  then show ?thesis by (simp add: Collect_def)
next
  case (Inr conn)
  obtain e ch1 conn1 where v: "collectVersionInfo L conn = (e, ch1, conn1)"
    by (cases "collectVersionInfo L conn")
  show ?thesis
  proof (cases e)
    case (Some err)
    then show ?thesis using Inr v by (simp add: Collect_def)
  next
    case None
    obtain ose4 ch conn4 uptime p where s:
      "collectSteps L conn1 ose = (ose4, ch, conn4, uptime, p)"
      by (cases "collectSteps L conn1 ose")
    have l: "lastUptime ose4 = lastUptime ose"
      using s collectSteps_lastUptime[of L conn1 ose] by simp
    show ?thesis
    proof (cases p)
      case pn: None
      have c: "fst (Collect L connect ose) = restartCheck uptime ose4"
        using Inr v None s pn by (simp add: Collect_def)
      show ?thesis
        unfolding c using restartCheck_cases[of uptime ose4] l by auto
    next
      case (Some pe)
      have c: "fst (Collect L connect ose) = ose4"
        using Inr v None s Some by (simp add: Collect_def)
      show ?thesis unfolding c using l by simp
    qed
  qed
qed

lemma runPasses_lastUptime:
  "lastUptime (runPasses L cs ose) = lastUptime ose
   \<or> f64_lt (lastUptime (runPasses L cs ose)) (lastUptime ose)"
proof (induction cs arbitrary: ose)
  case Nil
  then show ?case by simp
next
  case (Cons c cs)
  obtain ose' ch cmds p where r: "Collect L c ose = (ose', ch, cmds, p)"
    by (cases "Collect L c ose")
  have f: "fst (Collect L c ose) = ose'" using r by simp
  show ?case
  proof (cases p)
    case None
    then have "runPasses L (c # cs) ose = runPasses L cs ose'" using r by simp
    then show ?thesis
      using Cons[of ose'] Collect_lastUptime[of L c ose] f
      by (auto intro: f64_lt_trans)
  next
    case (Some pe)
    then have "runPasses L (c # cs) ose = ose'" using r by simp
    then show ?thesis
      using Collect_lastUptime[of L c ose] f by auto
  qed
qed

lemma demo_stdlib_sel:
  "ParseFloat demo_stdlib ''7'' = Some (Fin 7)"
  "ParseFloat demo_stdlib ''10'' = Some (Fin 10)"
  "ParseFloat demo_stdlib ''500'' = Some (Fin 500)"
  "ParseFloat demo_stdlib ''600'' = Some (Fin 600)"
  "ParseFloat demo_stdlib ''-5'' = Some (Fin (- 5))"
  "TrimSpace demo_stdlib s = s"
  "versionFind demo_stdlib s = None"
  by (simp_all add: demo_stdlib_def)

lemma demo_respond_simps:
  "demo_respond ts ''version'' [] = Inr (MINode [] [] None [] (Some [(''Server'', ''OpenSIPS'')]))"
  "demo_respond ts ''which'' [] =
     Inr (MINode [] [] None
            [MINode [] ''get_statistics'' None [] None,
             MINode [] ''list_all_profiles'' None [] None] None)"
  "demo_respond ts ''ps'' [] =
     Inr (MINode [] [] None
            [MINode [] [] (Some [(''ID'', ''1''), (''Type'', ''attendant'')]) [] None] None)"
  "demo_respond ts ''list_all_profiles'' [] =
     Inr (MINode [] [] None [] (Some [(''p1'', ''0''), (''p2'', ''1''), (''p3'', [])]))"
  "demo_respond ts ''profile_get_values'' [''p2''] =
     Inr (MINode [] [] None
            [MINode [] ''key1=a,key2=b'' (Some [(''count'', ''7'')]) [] None] None)"
  "demo_respond ts ''profile_get_values'' [''p3''] = Inl ''unknown command''"
  by (simp_all add: demo_respond_def)

lemma demo_stats:
  "ParseFloat demo_stdlib ts = Some v \<Longrightarrow>
   collectStats demo_stdlib \<lparr>respond = demo_respond ts, issued = i\<rparr> =
     (v,
      [ConstMetric (NewDesc ''opensips_core_uptime_seconds_total''
            ''The number of seconds elapsed from OpenSIPS starting'' []) CounterValue v [],
       ConstMetric (NewDesc ''opensips_core_received_requests_total''
            ''The total number of received requests by OpenSIPS'' []) CounterValue (Fin 7) []],
      \<lparr>respond = demo_respond ts, issued = i @ [(''get_statistics'', [''all''])]\<rparr>)"
  by (simp add: collectStats_def Command_def demo_respond_def SplitN2_def ReplaceSpaces_def
      demo_stdlib_sel opensipsStats_def core_stats_def statDesc_def BuildFQName_def namespace_def
      Let_def)

lemma demo_node:
  "profileNodeMetrics demo_stdlib ''p2''
     (MINode [] ''key1=a,key2=b'' (Some [(''count'', ''7'')]) [] None) =
     Inr [ConstMetric
            (NewDesc ''opensips_dialog_profiles_with_values_count''
               ''Dialog profiles with counts'' [''profile'', ''key1'', ''key2''])
            GaugeValue (Fin 7) [''p2'', ''a'', ''b'']]"
proof -
  have c: "ParseFloat demo_stdlib
             (index_str (Attrs (MINode [] ''key1=a,key2=b'' (Some [(''count'', ''7'')]) [] None))
                ''count'') = Some (Fin 7)"
    by (simp add: index_str_def demo_stdlib_sel)
  have n: "spec_pairs (Value (MINode [] ''key1=a,key2=b'' (Some [(''count'', ''7'')]) [] None)) \<noteq> []"
    by (simp add: pairs_example)
  show ?thesis
    using profileNodeMetrics_pairs[OF c n, of "''p2''"]
    by (simp add: pairs_example key_labels_valid)
qed

lemmas pass_defs = Collect_def collectVersionInfo_def collectSteps_def fetchCommands_def
  collectProcessInfo_def collectDialogProfiles_def restartCheck_def
  Command_def demo_conn_def demo_cache_def newOpensipsExporter_def
  index_bool_def index_str_def profilesOf_def demo_stdlib_sel demo_respond_simps demo_node
  Let_def

lemma demo_pass_negative_uptime:
  "fst (Collect demo_stdlib (Inr (demo_conn ''-5'')) demo_cache) =
     \<lparr>commands = [], processes = [], profiles = [], lastUptime = Fin (- 5)\<rparr>"
  by (simp add: pass_defs demo_stats)

text \<open>
  \<^bold>\<open>C9.\<close> The restart check leaves the cache as it is whenever the observed uptime
  is greater than or equal to the cached \<open>lastUptime\<close>; when it does change the cache,
  the observed uptime was strictly less than \<open>lastUptime\<close> and is what \<open>lastUptime\<close>
  now holds. No other step of a pass writes \<open>lastUptime\<close>. So a pass that leaves with a
  different \<open>lastUptime\<close> is an invalidating one: the new value is strictly less than the
  old and the three cached collections are empty. Over any run of passes from a new
  exporter, \<open>lastUptime\<close> is the initial 0 or a value strictly below it.
\<close>

theorem C9_restart_check_frame:
  "(f64_le (lastUptime ose) uptime \<longrightarrow> restartCheck uptime ose = ose)
   \<and> (restartCheck uptime ose \<noteq> ose \<longrightarrow>
        f64_lt uptime (lastUptime ose) \<and> lastUptime (restartCheck uptime ose) = uptime)
   \<and> lastUptime (fst (collectSteps L conn ose)) = lastUptime ose
   \<and> (lastUptime (fst (Collect L connect ose)) \<noteq> lastUptime ose \<longrightarrow>
        f64_lt (lastUptime (fst (Collect L connect ose))) (lastUptime ose)
        \<and> commands (fst (Collect L connect ose)) = []
        \<and> processes (fst (Collect L connect ose)) = []
        \<and> profiles (fst (Collect L connect ose)) = [])
   \<and> (lastUptime (runPasses L cs newOpensipsExporter) = Fin 0
        \<or> f64_lt (lastUptime (runPasses L cs newOpensipsExporter)) (Fin 0))"
proof -
  have a: "f64_le (lastUptime ose) uptime \<longrightarrow> restartCheck uptime ose = ose"
    by (auto simp: restartCheck_def dest: f64_le_not_lt)
  have b: "restartCheck uptime ose \<noteq> ose \<longrightarrow>
        f64_lt uptime (lastUptime ose) \<and> lastUptime (restartCheck uptime ose) = uptime"
    by (simp add: restartCheck_def)
  have e: "lastUptime (runPasses L cs newOpensipsExporter) = Fin 0
        \<or> f64_lt (lastUptime (runPasses L cs newOpensipsExporter)) (Fin 0)"
    using runPasses_lastUptime[of L cs newOpensipsExporter] by (simp add: newOpensipsExporter_def)
  show ?thesis
    using a b e collectSteps_lastUptime[of L conn ose] Collect_lastUptime[of L connect ose]
    by blast
qed

theorem C9_restart_check_frame_witness:
  "f64_le (lastUptime demo_cache) (Fin 600)
   \<and> restartCheck (Fin 600) demo_cache = demo_cache
   \<and> restartCheck (Fin (- 5)) demo_cache \<noteq> demo_cache
   \<and> lastUptime (restartCheck (Fin (- 5)) demo_cache) = Fin (- 5)
   \<and> lastUptime (fst (Collect demo_stdlib (Inr (demo_conn ''-5'')) demo_cache)) \<noteq> lastUptime demo_cache
   \<and> commands (fst (Collect demo_stdlib (Inr (demo_conn ''-5'')) demo_cache)) = []"
proof -
  have h1: "f64_le (lastUptime demo_cache) (Fin 600)" by (simp add: demo_cache_def)
  have h2: "restartCheck (Fin (- 5)) demo_cache \<noteq> demo_cache"
    by (simp add: restartCheck_def demo_cache_def)
  have h3: "lastUptime (fst (Collect demo_stdlib (Inr (demo_conn ''-5'')) demo_cache))
              \<noteq> lastUptime demo_cache"
    by (simp add: demo_pass_negative_uptime) (simp add: demo_cache_def)
  show ?thesis
    using h1 h2 h3
      C9_restart_check_frame [of demo_cache "Fin 600" demo_stdlib "demo_conn ''-5''"
        "Inr (demo_conn ''-5'')" "[]"]
      C9_restart_check_frame [of demo_cache "Fin (- 5)" demo_stdlib "demo_conn ''-5''"
        "Inr (demo_conn ''-5'')" "[]"]
    by simp
qed

lemma profilesOf_acc:
  "distinct (map fst cv) \<Longrightarrow> fst ` set acc \<inter> fst ` set cv = {} \<Longrightarrow>
   foldl (\<lambda>ps (profile, hasValues). AList.update profile (hasValues \<noteq> ''0'') ps) acc cv
     = acc @ map (\<lambda>(profile, hasValues). (profile, hasValues \<noteq> ''0'')) cv"
proof (induction cv arbitrary: acc)
  case Nil
  then show ?case by simp
next
  case (Cons a cv)
  obtain p hv where a: "a = (p, hv)" by (cases a)
  have "p \<notin> fst ` set acc" using Cons.prems a by auto
  then have u: "AList.update p (hv \<noteq> ''0'') acc = acc @ [(p, hv \<noteq> ''0'')]"
    by (rule update_fresh)
  have "fst ` set (acc @ [(p, hv \<noteq> ''0'')]) \<inter> fst ` set cv = {}" using Cons.prems a by auto
  with Cons a u show ?case by simp
qed

lemma profilesOf_distinct:
  "distinct (map fst cv) \<Longrightarrow>
   profilesOf cv = map (\<lambda>(profile, hasValues). (profile, hasValues \<noteq> ''0'')) cv"
  unfolding profilesOf_def using profilesOf_acc[of cv "[]"] by simp

lemma profilesLoop_issued_all:
  "snd (snd (profilesLoop L conn ps ch)) = None \<Longrightarrow>
   issued (fst (snd (profilesLoop L conn ps ch))) =
     issued conn @ map (\<lambda>(profile, hasValues). (''profile_get_values'', [profile])) (filter snd ps)"
proof (induction ps arbitrary: conn ch)
  case Nil
  then show ?case by simp
next
  case (Cons a ps)
  obtain p hv where a: "a = (p, hv)" by (cases a)
  show ?case
  proof (cases hv)
    case False
    then show ?thesis using a Cons by simp
  next
    case True
    show ?thesis
    proof (cases "respond conn ''profile_get_values'' [p]")
      case (Inl err)
      then show ?thesis using a True Cons by (simp add: Command_def)
    next
      case (Inr getResp)
      obtain ch' q where n: "profileNodesLoop L p (Children getResp) ch = (ch', q)"
        by (cases "profileNodesLoop L p (Children getResp) ch")
      show ?thesis
      proof (cases q)
        case None
        then show ?thesis using a True Inr n Cons by (simp add: Command_def)
      next
        case (Some pe)
        then show ?thesis using a True Inr n Cons.prems by (simp add: Command_def)
      qed
    qed
  qed
qed

lemma profilesLoop_issued_prefix:
  "\<exists>k. issued (fst (snd (profilesLoop L conn ps ch))) =
     issued conn @ map (\<lambda>(profile, hasValues). (''profile_get_values'', [profile]))
                     (take k (filter snd ps))"
proof (induction ps arbitrary: conn ch)
  case Nil
  then show ?case by simp
next
  case (Cons a ps)
  obtain p hv where a: "a = (p, hv)" by (cases a)
  let ?f = "\<lambda>(profile, hasValues). (''profile_get_values'', [profile])"
  show ?case
  proof (cases hv)
    case False
    then show ?thesis using a Cons[of conn ch] by simp
  next
    case True
    let ?c1 = "conn\<lparr>issued := issued conn @ [(''profile_get_values'', [p])]\<rparr>"
    have step: "\<exists>k. issued ?c1 @ map ?f (take j (filter snd ps)) =
                 issued conn @ map ?f (take k (filter snd ((p, True) # ps)))" for j
      by (rule exI[of _ "Suc j"]) simp
    show ?thesis
    proof (cases "respond conn ''profile_get_values'' [p]")
      case (Inl err)
      obtain j where "issued (fst (snd (profilesLoop L ?c1 ps ch))) =
                        issued ?c1 @ map ?f (take j (filter snd ps))"
        using Cons[of ?c1 ch] by blast
      then show ?thesis using a True Inl step[of j] by (simp add: Command_def)
    next
      case (Inr getResp)
      obtain ch' q where n: "profileNodesLoop L p (Children getResp) ch = (ch', q)"
        by (cases "profileNodesLoop L p (Children getResp) ch")
      show ?thesis
      proof (cases q)
        case None
        obtain j where "issued (fst (snd (profilesLoop L ?c1 ps ch'))) =
                          issued ?c1 @ map ?f (take j (filter snd ps))"
          using Cons[of ?c1 ch'] by blast
        then show ?thesis using a True Inr n None step[of j] by (simp add: Command_def)
      next
        case (Some pe)
        then show ?thesis using a True Inr n step[of 0] by (simp add: Command_def)
      qed
    qed
  qed
qed

text \<open>
  \<^bold>\<open>C10.\<close> When \<open>collectDialogProfiles\<close> refreshes the cache from a
  \<open>list_all_profiles\<close> response (its \<open>ChildValues\<close> a Go map, so with distinct keys),
  the cached profiles are the listed ones, each flagged exactly when its value string
  differs from "0". The commands the step issues after the listing are
  \<open>profile_get_values\<close> commands for cached profiles whose flag is true, in the order of
  the cache, and no other: one for each of them when the step is not ended by a panic,
  and for the first ones up to the profile whose metric panics otherwise. The same holds
  of the cached profiles when the step does not refresh.
\<close>

theorem C10_profile_flags_and_fetches:
  "(respond conn ''list_all_profiles'' [] = Inr resp \<and> ChildValues resp = Some cv
      \<and> distinct (map fst cv) \<longrightarrow>
      profiles (fst (collectDialogProfiles L conn ose True))
        = map (\<lambda>(profile, hasValues). (profile, hasValues \<noteq> ''0'')) cv
      \<and> (\<exists>k. issued (fst (snd (snd (collectDialogProfiles L conn ose True))))
            = issued conn @ (''list_all_profiles'', [])
                # map (\<lambda>(profile, hasValues). (''profile_get_values'', [profile]))
                    (take k (filter (\<lambda>(profile, hasValues). hasValues \<noteq> ''0'') cv)))
      \<and> (snd (snd (snd (collectDialogProfiles L conn ose True))) = None \<longrightarrow>
          issued (fst (snd (snd (collectDialogProfiles L conn ose True))))
            = issued conn @ (''list_all_profiles'', [])
                # map (\<lambda>(profile, hasValues). (''profile_get_values'', [profile]))
                    (filter (\<lambda>(profile, hasValues). hasValues \<noteq> ''0'') cv)))
   \<and> (\<exists>k. issued (fst (snd (snd (collectDialogProfiles L conn ose False))))
         = issued conn @ map (\<lambda>(profile, hasValues). (''profile_get_values'', [profile]))
                           (take k (filter snd (profiles ose))))
   \<and> (snd (snd (snd (collectDialogProfiles L conn ose False))) = None \<longrightarrow>
       issued (fst (snd (snd (collectDialogProfiles L conn ose False))))
         = issued conn @ map (\<lambda>(profile, hasValues). (''profile_get_values'', [profile]))
                           (filter snd (profiles ose)))"
proof -
  let ?f = "\<lambda>(profile, hasValues). (''profile_get_values'', [profile])"
  let ?flag = "\<lambda>(profile, hasValues). (profile, hasValues \<noteq> ''0'')"
  have f: "filter snd (map ?flag cv) = map ?flag (filter (\<lambda>(profile, hasValues). hasValues \<noteq> ''0'') cv)"
    for cv :: "(string \<times> string) list"
    by (induction cv) auto
  have g: "map ?f (take k (map ?flag xs)) = map ?f (take k xs)"
    for k and xs :: "(string \<times> string) list"
    by (simp add: take_map case_prod_beta)
  have g': "map ?f (map ?flag xs) = map ?f xs" for xs :: "(string \<times> string) list"
    by (simp add: case_prod_beta)
  have F: "collectDialogProfiles L conn ose False =
             (ose, fst (profilesLoop L conn (profiles ose) []),
              fst (snd (profilesLoop L conn (profiles ose) [])),
              snd (snd (profilesLoop L conn (profiles ose) [])))"
    by (simp add: collectDialogProfiles_def split: prod.splits)
  have 1: "\<exists>k. issued (fst (snd (snd (collectDialogProfiles L conn ose False))))
         = issued conn @ map ?f (take k (filter snd (profiles ose)))"
    unfolding F using profilesLoop_issued_prefix[of L conn "profiles ose" "[]"] by simp
  have 2: "snd (snd (snd (collectDialogProfiles L conn ose False))) = None \<longrightarrow>
       issued (fst (snd (snd (collectDialogProfiles L conn ose False))))
         = issued conn @ map ?f (filter snd (profiles ose))"
    unfolding F using profilesLoop_issued_all[of L conn "profiles ose" "[]"] by simp
  have 3: "profiles (fst (collectDialogProfiles L conn ose True)) = map ?flag cv
      \<and> (\<exists>k. issued (fst (snd (snd (collectDialogProfiles L conn ose True))))
            = issued conn @ (''list_all_profiles'', [])
                # map ?f (take k (filter (\<lambda>(profile, hasValues). hasValues \<noteq> ''0'') cv)))
      \<and> (snd (snd (snd (collectDialogProfiles L conn ose True))) = None \<longrightarrow>
          issued (fst (snd (snd (collectDialogProfiles L conn ose True))))
            = issued conn @ (''list_all_profiles'', [])
                # map ?f (filter (\<lambda>(profile, hasValues). hasValues \<noteq> ''0'') cv))"
    if h: "respond conn ''list_all_profiles'' [] = Inr resp" "ChildValues resp = Some cv"
      "distinct (map fst cv)"
  proof -
    let ?c1 = "conn\<lparr>issued := issued conn @ [(''list_all_profiles'', [])]\<rparr>"
    let ?ps = "map ?flag cv"
    have T: "collectDialogProfiles L conn ose True =
             (ose\<lparr>profiles := ?ps\<rparr>, fst (profilesLoop L ?c1 ?ps []),
              fst (snd (profilesLoop L ?c1 ?ps [])),
              snd (snd (profilesLoop L ?c1 ?ps [])))"
      using h by (simp add: collectDialogProfiles_def Command_def Let_def profilesOf_distinct
            split: prod.splits)
    obtain k where k: "issued (fst (snd (profilesLoop L ?c1 ?ps []))) =
                         issued ?c1 @ map ?f (take k (filter snd ?ps))"
      using profilesLoop_issued_prefix[of L ?c1 ?ps "[]"] by blast
    have a: "profiles (fst (collectDialogProfiles L conn ose True)) = ?ps"
      unfolding T by simp
    have b: "\<exists>k. issued (fst (snd (snd (collectDialogProfiles L conn ose True))))
            = issued conn @ (''list_all_profiles'', [])
                # map ?f (take k (filter (\<lambda>(profile, hasValues). hasValues \<noteq> ''0'') cv))"
      unfolding T using k by (auto simp: f g)
    have c: "snd (snd (snd (collectDialogProfiles L conn ose True))) = None \<longrightarrow>
          issued (fst (snd (snd (collectDialogProfiles L conn ose True))))
            = issued conn @ (''list_all_profiles'', [])
                # map ?f (filter (\<lambda>(profile, hasValues). hasValues \<noteq> ''0'') cv)"
      unfolding T using profilesLoop_issued_all[of L ?c1 ?ps "[]"] by (auto simp: f g')
    show ?thesis using a b c by blast
  qed
  show ?thesis using 1 2 3 by blast
qed

theorem C10_profile_flags_and_fetches_witness:
  "respond (demo_conn ''500'') ''list_all_profiles'' []
     = Inr (MINode [] [] None [] (Some [(''p1'', ''0''), (''p2'', ''1''), (''p3'', [])]))
   \<and> distinct (map fst [(''p1'', ''0''), (''p2'', ''1''), (''p3'', [])])
   \<and> snd (snd (snd (collectDialogProfiles demo_stdlib (demo_conn ''500'') newOpensipsExporter True)))
       = None
   \<and> profiles (fst (collectDialogProfiles demo_stdlib (demo_conn ''500'') newOpensipsExporter True))
       = [(''p1'', False), (''p2'', True), (''p3'', True)]
   \<and> issued (fst (snd (snd
        (collectDialogProfiles demo_stdlib (demo_conn ''500'') newOpensipsExporter True))))
       = [(''list_all_profiles'', []), (''profile_get_values'', [''p2'']),
          (''profile_get_values'', [''p3''])]"
proof -
  have h1: "respond (demo_conn ''500'') ''list_all_profiles'' []
     = Inr (MINode [] [] None [] (Some [(''p1'', ''0''), (''p2'', ''1''), (''p3'', [])]))"
    by (simp add: demo_conn_def demo_respond_simps)
  have h2: "distinct (map fst [(''p1'', ''0''), (''p2'', ''1''), (''p3'', [])])" by simp
  have h3: "snd (snd (snd
              (collectDialogProfiles demo_stdlib (demo_conn ''500'') newOpensipsExporter True)))
            = None"
    by (simp add: pass_defs)
  have i: "issued (demo_conn ''500'') = []" by (simp add: demo_conn_def)
  show ?thesis
    using h1 h2 h3 i
      C10_profile_flags_and_fetches [of "demo_conn ''500''"
        "MINode [] [] None [] (Some [(''p1'', ''0''), (''p2'', ''1''), (''p3'', [])])"
        "[(''p1'', ''0''), (''p2'', ''1''), (''p3'', [])]" demo_stdlib newOpensipsExporter]
    by simp
qed

text \<open>
  \<^bold>\<open>C1.\<close> The restart check does compare the pass's uptime with \<open>lastUptime\<close>, but
  \<open>lastUptime\<close> is written only inside the branch that the comparison guards, so it
  never learns the uptime of an ordinary pass. A first pass that observes uptime 500
  leaves \<open>lastUptime\<close> at 0 with the cache filled; a second pass that observes uptime 10
  compares 10 with 0 and leaves all four cached fields as they were. A pass observing
  600 leaves them as they were as well.
\<close>

theorem C1_uptime_500_then_10_keeps_cache:
  "fst (Collect demo_stdlib (Inr (demo_conn ''500'')) newOpensipsExporter) = demo_cache
   \<and> fst (Collect demo_stdlib (Inr (demo_conn ''10'')) demo_cache) = demo_cache
   \<and> fst (Collect demo_stdlib (Inr (demo_conn ''600'')) demo_cache) = demo_cache
   \<and> runPasses demo_stdlib [Inr (demo_conn ''500''), Inr (demo_conn ''10'')] newOpensipsExporter
       = \<lparr>commands = [(''get_statistics'', True), (''list_all_profiles'', True)],
          processes = [[''1'', ''attendant'']],
          profiles = [(''p1'', False), (''p2'', True), (''p3'', True)],
          lastUptime = Fin 0\<rparr>"
proof -
  have 1: "Collect demo_stdlib (Inr (demo_conn ''500'')) newOpensipsExporter =
             (demo_cache,
              fst (snd (Collect demo_stdlib (Inr (demo_conn ''500'')) newOpensipsExporter)),
              fst (snd (snd (Collect demo_stdlib (Inr (demo_conn ''500'')) newOpensipsExporter))),
              None)"
    by (simp add: pass_defs demo_stats)
  have 2: "Collect demo_stdlib (Inr (demo_conn ''10'')) demo_cache =
             (demo_cache,
              fst (snd (Collect demo_stdlib (Inr (demo_conn ''10'')) demo_cache)),
              fst (snd (snd (Collect demo_stdlib (Inr (demo_conn ''10'')) demo_cache))),
              None)"
    by (simp add: pass_defs demo_stats)
  have 3: "fst (Collect demo_stdlib (Inr (demo_conn ''600'')) demo_cache) = demo_cache"
    by (simp add: pass_defs demo_stats)
  from 1 obtain ch1 i1 where e1:
    "Collect demo_stdlib (Inr (demo_conn ''500'')) newOpensipsExporter = (demo_cache, ch1, i1, None)"
    by blast
  from 2 obtain ch2 i2 where e2:
    "Collect demo_stdlib (Inr (demo_conn ''10'')) demo_cache = (demo_cache, ch2, i2, None)"
    by blast
  have r: "runPasses demo_stdlib [Inr (demo_conn ''500''), Inr (demo_conn ''10'')]
             newOpensipsExporter = demo_cache"
    by (simp add: e1 e2)
  have f1: "fst (Collect demo_stdlib (Inr (demo_conn ''500'')) newOpensipsExporter) = demo_cache"
    by (simp add: e1)
  have f2: "fst (Collect demo_stdlib (Inr (demo_conn ''10'')) demo_cache) = demo_cache"
    by (simp add: e2)
  show ?thesis using f1 f2 3 r by (simp add: demo_cache_def)
qed

end
